theory Spec2Isabelle
  imports Main "HOL-Library.AList" "HOL-Library.Multiset" "HOL-Library.Monad_Syntax"
begin

section \<open>Data model\<close>

text \<open>
  The application keeps customer accounts (ledgers) with their credit and debit
  transactions. The JavaScript objects of the source are kept as records.

  \<^item> Amounts and balances are JavaScript numbers. They are modelled as exact integers
    (an amount in the currency's smallest unit); the rounding of binary floating point
    is not modelled.
  \<^item> A transaction's \<open>date\<close> is an ISO-8601 string in the source, and the only use the
    code makes of it is \<open>new Date(a.date) - new Date(b.date)\<close>. The model keeps the
    number that \<open>new Date(date)\<close> stands for (milliseconds since the epoch).
  \<^item> \<open>type\<close> is a string. The only test the code makes of it is
    \<open>t.type === 'credit'\<close>; every other value (\<open>'debit'\<close> of the data model,
    \<open>'payment'\<close> that the ledger screen passes for "Received") takes the \<open>else\<close> branch.
  \<^item> A field that the source may leave out (or set to \<open>null\<close>) is an \<open>option\<close>.
    \<open>updatedAt\<close> is the field that the customer profile screen adds to a ledger.
\<close>

record txn =
  txn_id :: string
  ttype :: string
  amount :: int
  txn_note :: "string option"
  date :: int
  displayDate :: "string option"
  billPhoto :: "string option"
  balanceAfter :: "int option"

record ledger =
  ledger_id :: string
  name :: string
  phone :: "string option"
  address :: "string option"
  balance :: int
  transactions :: "txn list"
  updatedAt :: "string option"

section \<open>Adding and editing a transaction (AddTransactionScreen.js, handleConfirm)\<close>

text \<open>
  The screen receives \<open>ledger\<close>, \<open>type\<close> and \<open>editTransaction\<close> as route parameters
  and holds the entered values as component state. \<open>numAmount\<close> is the value of
  \<open>evaluateMathExpression(amount)\<close>, \<open>newId\<close> the value \<open>generateId()\<close> returns.
\<close>

record route_params =
  param_ledger :: ledger
  param_type :: string
  editTransaction :: "txn option"

record form_state =
  numAmount :: int
  form_note :: string
  selectedDate :: int
  form_date :: string
  form_billPhoto :: "string option"
  newId :: string

definition transactionData :: "route_params \<Rightarrow> form_state \<Rightarrow> txn" where
  "transactionData p f =
     \<lparr> txn_id = (case editTransaction p of Some e \<Rightarrow> txn_id e | None \<Rightarrow> newId f),
       ttype = param_type p,
       amount = numAmount f,
       txn_note = Some (form_note f),
       date = selectedDate f,
       displayDate = Some (form_date f),
       billPhoto = form_billPhoto f,
       balanceAfter = None \<rparr>"

text \<open>
  \<open>updatedTransactions\<close> before sorting: an edit replaces every transaction that has the
  edited id, an insert appends.
\<close>

definition updatedTransactions :: "route_params \<Rightarrow> form_state \<Rightarrow> txn list" where
  "updatedTransactions p f =
     (case editTransaction p of
        Some e \<Rightarrow>
          map (\<lambda>t. if txn_id t = txn_id e then transactionData p f else t)
            (transactions (param_ledger p))
      | None \<Rightarrow> transactions (param_ledger p) @ [transactionData p f])"

text \<open>
  \<open>updatedTransactions.sort((a, b) => new Date(a.date) - new Date(b.date))\<close>:
  \<open>Array.prototype.sort\<close> is stable, and so is \<^const>\<open>sort_key\<close>.

  The \<open>map\<close> callback that follows mutates \<open>runningBalance\<close>; the model threads it.
\<close>

fun recalculate :: "int \<Rightarrow> txn list \<Rightarrow> txn list \<times> int" where
  "recalculate runningBalance [] = ([], runningBalance)"
| "recalculate runningBalance (t # ts) =
     (let rb = (if ttype t = ''credit'' then runningBalance + amount t
                else runningBalance - amount t);
          (ts', final) = recalculate rb ts
      in (t\<lparr>balanceAfter := Some rb\<rparr> # ts', final))"

text \<open>
  The ledger that \<open>handleConfirm\<close> hands to \<open>saveLedger\<close>; \<open>None\<close> when the amount is
  not positive (the handler returns before it builds anything).
\<close>

definition updatedLedger :: "route_params \<Rightarrow> form_state \<Rightarrow> ledger option" where
  "updatedLedger p f =
     (if numAmount f \<le> 0 then None
      else
        let (ts, newBalance) = recalculate 0 (sort_key date (updatedTransactions p f))
        in Some ((param_ledger p)\<lparr>balance := newBalance, transactions := ts\<rparr>))"

section \<open>Signed sums\<close>

text \<open>
  The sign convention of the data model: a credit counts positive, a debit (every
  transaction that is no credit) negative.
\<close>

definition signed :: "txn \<Rightarrow> int" where
  "signed t = (if ttype t = ''credit'' then amount t else - amount t)"

definition signedSum :: "txn list \<Rightarrow> int" where
  "signedSum ts = sum_list (map signed ts)"

text \<open>
  \<open>cumulative ts\<close> gives every transaction of \<open>ts\<close> the signed sum of the amounts up to
  and including itself as its \<open>balanceAfter\<close>.
\<close>

definition cumulative :: "txn list \<Rightarrow> txn list" where
  "cumulative ts =
     map (\<lambda>i. (ts ! i)\<lparr>balanceAfter := Some (signedSum (take (Suc i) ts))\<rparr>) [0..<length ts]"

section \<open>JavaScript values read from JSON\<close>

text \<open>
  What \<open>JSON.parse\<close> returns. An object is a list of properties; a property's value is
  the first one the list gives for its name (\<^const>\<open>map_of\<close>). Numbers are integers, as
  amounts are.
\<close>

datatype json =
  JNull
| JBool bool
| JNum int
| JStr string
| JArr "json list"
| JObj "(string \<times> json) list"

text \<open>
  \<open>getProp v k\<close> is the property read \<open>v.k\<close>, with \<open>None\<close> for \<open>undefined\<close>. The names the
  source reads (\<open>version\<close>, \<open>ledgers\<close>, \<open>id\<close>, \<open>name\<close>, \<open>balance\<close>, \<open>transactions\<close>, ...)
  are properties of objects only: on an array, a string, a number or a boolean the read
  gives \<open>undefined\<close>. On \<open>null\<close> the read throws a TypeError; every function below that
  reads a property of a value that may be \<open>null\<close> has a branch for it.
\<close>

fun getProp :: "json \<Rightarrow> string \<Rightarrow> json option" where
  "getProp (JObj kvs) k = map_of kvs k"
| "getProp _ k = None"

fun truthy :: "json option \<Rightarrow> bool" where
  "truthy None = False"
| "truthy (Some JNull) = False"
| "truthy (Some (JBool b)) = b"
| "truthy (Some (JNum n)) = (n \<noteq> 0)"
| "truthy (Some (JStr s)) = (s \<noteq> [])"
| "truthy (Some (JArr xs)) = True"
| "truthy (Some (JObj kvs)) = True"

fun typeof :: "json option \<Rightarrow> string" where
  "typeof None = ''undefined''"
| "typeof (Some JNull) = ''object''"
| "typeof (Some (JBool b)) = ''boolean''"
| "typeof (Some (JNum n)) = ''number''"
| "typeof (Some (JStr s)) = ''string''"
| "typeof (Some (JArr xs)) = ''object''"
| "typeof (Some (JObj kvs)) = ''object''"

fun isArray :: "json option \<Rightarrow> bool" where
  "isArray (Some (JArr xs)) = True"
| "isArray _ = False"

text \<open>
  \<open>ownValues v\<close> lists \<open>v[k]\<close> for the keys \<open>k\<close> that \<open>for (const k in v)\<close> visits: the
  properties of an object (each name once), the elements of an array, nothing for
  \<open>null\<close>, a number or a boolean. Its length is \<open>Object.keys(v).length\<close>.
\<close>

fun ownValues :: "json \<Rightarrow> json list" where
  "ownValues (JObj kvs) = map snd (AList.clearjunk kvs)"
| "ownValues (JArr xs) = xs"
| "ownValues _ = []"

text \<open>
  \<open>forOf v\<close> lists the values that \<open>for (const x of v)\<close> visits: the elements of an
  array, the characters of a text; \<open>None\<close> for a value that cannot be iterated, where the
  loop throws.
\<close>

fun forOf :: "json \<Rightarrow> json list option" where
  "forOf (JArr xs) = Some xs"
| "forOf (JStr s) = Some (map (\<lambda>c. JStr [c]) s)"
| "forOf _ = None"

section \<open>Validation of a backup file (backup.js, validateBackupFile)\<close>

text \<open>
  One pass through the body of the loop over \<open>data.ledgers\<close>: \<open>False\<close> when the body
  returns false, or throws (the function's \<open>catch\<close> returns false).
\<close>

definition validateLedger :: "json \<Rightarrow> bool" where
  "validateLedger ledger =
     (case ledger of
        JNull \<Rightarrow> False
      | _ \<Rightarrow>
          if \<not> truthy (getProp ledger ''id'') \<or> \<not> truthy (getProp ledger ''name'')
             \<or> typeof (getProp ledger ''balance'') \<noteq> ''number''
          then False
          else if truthy (getProp ledger ''transactions'') \<and> \<not> isArray (getProp ledger ''transactions'')
          then False
          else True)"

fun validateLedgers :: "json list \<Rightarrow> bool" where
  "validateLedgers [] = True"
| "validateLedgers (ledger # rest) =
     (if validateLedger ledger then validateLedgers rest else False)"

definition validateBackupFile :: "json \<Rightarrow> bool" where
  "validateBackupFile backupData =
     (case backupData of
        JNull \<Rightarrow> False
      | _ \<Rightarrow>
          if \<not> truthy (getProp backupData ''version'') \<or> \<not> truthy (getProp backupData ''ledgers'')
          then False
          else if typeof (getProp backupData ''ledgers'') \<noteq> ''object''
          then False
          else (case getProp backupData ''ledgers'' of
                  None \<Rightarrow> False
                | Some ledgers \<Rightarrow> validateLedgers (ownValues ledgers)))"

text \<open>
  The validation as the specification words it: a field counts when it is present,
  whatever its value.
\<close>

definition present :: "json \<Rightarrow> string \<Rightarrow> bool" where
  "present v k = (getProp v k \<noteq> None)"

definition ledgerAsSpecified :: "json \<Rightarrow> bool" where
  "ledgerAsSpecified ledger =
     (present ledger ''id'' \<and> present ledger ''name''
      \<and> typeof (getProp ledger ''balance'') = ''number''
      \<and> (if present ledger ''transactions'' then isArray (getProp ledger ''transactions'')
         else True))"

definition validAsSpecified :: "json \<Rightarrow> bool" where
  "validAsSpecified backupData =
     (present backupData ''version'' \<and> present backupData ''ledgers''
      \<and> typeof (getProp backupData ''ledgers'') = ''object''
      \<and> (case getProp backupData ''ledgers'' of
            None \<Rightarrow> False
          | Some ledgers \<Rightarrow> list_all ledgerAsSpecified (ownValues ledgers)))"

text \<open>The validation the code performs: a field counts when its value is truthy.\<close>

definition ledgerTruthy :: "json \<Rightarrow> bool" where
  "ledgerTruthy ledger =
     (truthy (getProp ledger ''id'') \<and> truthy (getProp ledger ''name'')
      \<and> typeof (getProp ledger ''balance'') = ''number''
      \<and> (if truthy (getProp ledger ''transactions'') then isArray (getProp ledger ''transactions'')
         else True))"


section \<open>Ledgers as stored text\<close>

text \<open>
  \<open>JSON.stringify\<close> of a ledger and of a transaction. A field that is left out is
  written as \<open>null\<close>; every reader in the source treats the two alike
  (\<open>ledger.phone || ''\<close>, \<open>txn.balanceAfter || 0\<close>). The date is written as the number
  that stands for it.
\<close>

definition optStr :: "string option \<Rightarrow> json" where
  "optStr s = (case s of None \<Rightarrow> JNull | Some x \<Rightarrow> JStr x)"

definition optNum :: "int option \<Rightarrow> json" where
  "optNum n = (case n of None \<Rightarrow> JNull | Some x \<Rightarrow> JNum x)"

definition txn_json :: "txn \<Rightarrow> json" where
  "txn_json t =
     JObj [(''id'', JStr (txn_id t)), (''type'', JStr (ttype t)),
           (''amount'', JNum (amount t)), (''note'', optStr (txn_note t)),
           (''date'', JNum (date t)), (''displayDate'', optStr (displayDate t)),
           (''billPhoto'', optStr (billPhoto t)), (''balanceAfter'', optNum (balanceAfter t))]"

definition ledger_json :: "ledger \<Rightarrow> json" where
  "ledger_json l =
     JObj [(''id'', JStr (ledger_id l)), (''name'', JStr (name l)),
           (''phone'', optStr (phone l)), (''address'', optStr (address l)),
           (''balance'', JNum (balance l)),
           (''transactions'', JArr (map txn_json (transactions l))),
           (''updatedAt'', optStr (updatedAt l))]"

text \<open>
  Reading a stored value as a ledger of the data model, to state what a stored ledger
  holds: a missing field is read like \<open>null\<close>, other properties are passed over, and a
  value whose fields have other types has no reading (\<open>None\<close>). The reading serves the
  observations below.
\<close>

fun asStr :: "json option \<Rightarrow> string option" where
  "asStr (Some (JStr s)) = Some s"
| "asStr _ = None"

fun asNum :: "json option \<Rightarrow> int option" where
  "asNum (Some (JNum n)) = Some n"
| "asNum _ = None"

fun asOptStr :: "json option \<Rightarrow> string option option" where
  "asOptStr None = Some None"
| "asOptStr (Some JNull) = Some None"
| "asOptStr (Some (JStr s)) = Some (Some s)"
| "asOptStr _ = None"

fun asOptNum :: "json option \<Rightarrow> int option option" where
  "asOptNum None = Some None"
| "asOptNum (Some JNull) = Some None"
| "asOptNum (Some (JNum n)) = Some (Some n)"
| "asOptNum _ = None"

definition txn_of_json :: "json \<Rightarrow> txn option" where
  "txn_of_json j = do {
     i \<leftarrow> asStr (getProp j ''id'');
     ty \<leftarrow> asStr (getProp j ''type'');
     a \<leftarrow> asNum (getProp j ''amount'');
     n \<leftarrow> asOptStr (getProp j ''note'');
     d \<leftarrow> asNum (getProp j ''date'');
     dd \<leftarrow> asOptStr (getProp j ''displayDate'');
     bp \<leftarrow> asOptStr (getProp j ''billPhoto'');
     ba \<leftarrow> asOptNum (getProp j ''balanceAfter'');
     Some \<lparr> txn_id = i, ttype = ty, amount = a, txn_note = n, date = d,
            displayDate = dd, billPhoto = bp, balanceAfter = ba \<rparr>
   }"

fun txns_of_json :: "json option \<Rightarrow> txn list option" where
  "txns_of_json (Some (JArr xs)) = those (map txn_of_json xs)"
| "txns_of_json _ = None"

definition ledger_of_json :: "json \<Rightarrow> ledger option" where
  "ledger_of_json j = do {
     i \<leftarrow> asStr (getProp j ''id'');
     n \<leftarrow> asStr (getProp j ''name'');
     ph \<leftarrow> asOptStr (getProp j ''phone'');
     ad \<leftarrow> asOptStr (getProp j ''address'');
     b \<leftarrow> asNum (getProp j ''balance'');
     ts \<leftarrow> txns_of_json (getProp j ''transactions'');
     u \<leftarrow> asOptStr (getProp j ''updatedAt'');
     Some \<lparr> ledger_id = i, name = n, phone = ph, address = ad, balance = b,
            transactions = ts, updatedAt = u \<rparr>
   }"

section \<open>The environment: identity, AsyncStorage, the remote store, the clock\<close>

text \<open>
  \<^item> \<open>currentUser\<close> is the uid of \<open>auth.currentUser\<close>, \<open>None\<close> when nobody is signed in.
  \<^item> \<open>items\<close> is AsyncStorage. Every writer in the source stores the output of
    \<open>JSON.stringify\<close>, so an item is kept as the value that text parses to. Calls to
    AsyncStorage are taken to succeed; the \<open>catch\<close> branches that only a rejected
    AsyncStorage call or unparsable text reaches are not modelled.
  \<^item> The remote document store holds, for a user, ledger documents
    \<open>users/{uid}/ledgers/{ledgerId}\<close>, transaction documents
    \<open>.../ledgers/{ledgerId}/transactions/{transactionId}\<close>, expense documents
    \<open>users/{uid}/expenses/{expenseId}\<close> and the document \<open>users/{uid}/settings/categories\<close>.
    A call to it may fail: \<open>failing\<close> tells for which document or collection the call
    rejects. A ledger document and a transaction document have the fields that
    \<open>syncLedgerToFirebase\<close>, their only writer, gives them (\<open>setDoc\<close> replaces the
    document); a field holds the value it was given, whatever its type.
  \<^item> \<open>clock\<close> is the value of \<open>new Date().toISOString()\<close>.
\<close>

datatype path =
  LedgerDoc string string
| TxnDoc string string string
| ExpenseDoc string string
| CategoriesDoc string
| LedgersCollection string
| TransactionsCollection string string

record ledger_doc =
  doc_name :: json
  doc_balance :: json
  doc_phone :: json
  doc_address :: json
  doc_updatedAt :: string

record txn_doc =
  doc_type :: json
  doc_amount :: json
  doc_date :: json
  doc_balanceAfter :: json

record world =
  currentUser :: "string option"
  items :: "string \<Rightarrow> json option"
  ledgerDocs :: "((string \<times> string) \<times> ledger_doc) list"
  txnDocs :: "((string \<times> string \<times> string) \<times> txn_doc) list"
  expenseDocs :: "((string \<times> string) \<times> json) list"
  categoriesDocs :: "(string \<times> json) list"
  failing :: "path \<Rightarrow> bool"
  clock :: string

definition setItem :: "string \<Rightarrow> json \<Rightarrow> world \<Rightarrow> world" where
  "setItem k v w = w\<lparr>items := (items w)(k \<mapsto> v)\<rparr>"

definition userOrGuest :: "world \<Rightarrow> string" where
  "userOrGuest w = (case currentUser w of Some uid \<Rightarrow> uid | None \<Rightarrow> ''guest'')"

definition getLedgersKey :: "world \<Rightarrow> string" where
  "getLedgersKey w = ''ledgers_'' @ userOrGuest w"

definition getExpensesKey :: "world \<Rightarrow> string" where
  "getExpensesKey w = ''expenses_'' @ userOrGuest w"

definition getCategoriesKey :: "world \<Rightarrow> string" where
  "getCategoriesKey w = ''categories_'' @ userOrGuest w"

definition getSettingsKey :: "world \<Rightarrow> string" where
  "getSettingsKey w = ''settings_'' @ userOrGuest w"

section \<open>Local storage (storage.js)\<close>

definition getAllLedgers :: "world \<Rightarrow> json" where
  "getAllLedgers w =
     (case items w (getLedgersKey w) of None \<Rightarrow> JObj [] | Some allLedgers \<Rightarrow> allLedgers)"

definition getExpenses :: "world \<Rightarrow> json" where
  "getExpenses w =
     (case items w (getExpensesKey w) of None \<Rightarrow> JArr [] | Some allExpenses \<Rightarrow> allExpenses)"

definition defaultCategories :: json where
  "defaultCategories =
     JArr (map (\<lambda>(i, icon, color).
                 JObj [(''id'', JStr i), (''icon'', JStr icon), (''color'', JStr color)])
       [(''Food'', ''food'', ''#FF7043''), (''Travel'', ''car'', ''#42A5F5''),
        (''Study'', ''book-open-variant'', ''#66BB6A''), (''Rent'', ''home-city'', ''#9C27B0''),
        (''Entertainment'', ''movie-open'', ''#E91E63''),
        (''Health'', ''heart-pulse'', ''#F44336''), (''Salary'', ''cash-multiple'', ''#009688''),
        (''Other'', ''dots-horizontal'', ''#78909C'')])"

definition getCategories :: "world \<Rightarrow> json" where
  "getCategories w =
     (case items w (getCategoriesKey w) of
        None \<Rightarrow> defaultCategories
      | Some categories \<Rightarrow> categories)"

text \<open>
  The object spread \<open>{ ...a, ...b }\<close>: the properties of \<open>b\<close> are assigned over those of
  \<open>a\<close> (\<^const>\<open>AList.merge\<close>: a name has the value \<open>b\<close> gives it, else the value \<open>a\<close>
  gives it). Spreading \<open>null\<close>, a number or a boolean adds nothing; spreading an array or
  a string would add index keys, which no reader asks for, and is modelled as adding
  nothing.
\<close>

fun spread :: "(string \<times> json) list \<Rightarrow> json \<Rightarrow> (string \<times> json) list" where
  "spread a (JObj b) = AList.merge a b"
| "spread a _ = a"

definition defaultSettings :: "(string \<times> json) list" where
  "defaultSettings =
     [(''autoBackup'', JBool False), (''lastSync'', JNull), (''syncStatus'', JStr ''idle'')]"

definition getBackupSettings :: "world \<Rightarrow> (string \<times> json) list" where
  "getBackupSettings w =
     (case items w (getSettingsKey w) of
        None \<Rightarrow> defaultSettings
      | Some parsed \<Rightarrow> spread defaultSettings parsed)"

definition updateBackupSettings :: "(string \<times> json) list \<Rightarrow> world \<Rightarrow> world" where
  "updateBackupSettings settings w =
     setItem (getSettingsKey w) (JObj (spread (getBackupSettings w) (JObj settings))) w"

definition autoBackup :: "world \<Rightarrow> bool" where
  "autoBackup w = truthy (map_of (getBackupSettings w) ''autoBackup'')"

definition lastSync :: "world \<Rightarrow> json option" where
  "lastSync w = map_of (getBackupSettings w) ''lastSync''"


section \<open>Calls to the remote store\<close>

text \<open>
  A document reference \<open>doc(db, 'users', uid, ..., id)\<close> is built from path segments.
  \<open>doc\<close> drops empty segments and throws when the number of segments left is odd, so
  it throws for an id that is the empty string. An id with a slash is read as several
  segments and gives another path, or throws; no identifier of the application has one
  (\<open>generateId\<close>, the ids the remote store returns), and the model takes such a
  reference as invalid too. The uid of a signed-in user is a valid segment.
\<close>

definition validId :: "string \<Rightarrow> bool" where
  "validId s = (s \<noteq> [] \<and> CHR ''/'' \<notin> set s)"

fun validRef :: "path \<Rightarrow> bool" where
  "validRef (LedgerDoc uid lid) = validId lid"
| "validRef (TxnDoc uid lid tid) = (validId lid \<and> validId tid)"
| "validRef (ExpenseDoc uid eid) = validId eid"
| "validRef p = True"

text \<open>Building the reference throws, or the call on it rejects.\<close>

definition callFails :: "world \<Rightarrow> path \<Rightarrow> bool" where
  "callFails w p = (if validRef p then failing w p else True)"

text \<open>
  \<open>setDoc\<close>, \<open>deleteDoc\<close> and \<open>getDocs\<close>; \<open>None\<close> when the call throws or rejects.
  \<open>getDocs\<close> on a collection returns the documents that exist in it.
\<close>

definition setLedgerDoc :: "string \<Rightarrow> string \<Rightarrow> ledger_doc \<Rightarrow> world \<Rightarrow> world option" where
  "setLedgerDoc uid lid d w =
     (if callFails w (LedgerDoc uid lid) then None
      else Some (w\<lparr>ledgerDocs := AList.update (uid, lid) d (ledgerDocs w)\<rparr>))"

definition setTxnDoc :: "string \<Rightarrow> string \<Rightarrow> string \<Rightarrow> txn_doc \<Rightarrow> world \<Rightarrow> world option" where
  "setTxnDoc uid lid tid d w =
     (if callFails w (TxnDoc uid lid tid) then None
      else Some (w\<lparr>txnDocs := AList.update (uid, lid, tid) d (txnDocs w)\<rparr>))"

definition setExpenseDoc :: "string \<Rightarrow> string \<Rightarrow> json \<Rightarrow> world \<Rightarrow> world option" where
  "setExpenseDoc uid eid d w =
     (if callFails w (ExpenseDoc uid eid) then None
      else Some (w\<lparr>expenseDocs := AList.update (uid, eid) d (expenseDocs w)\<rparr>))"

definition setCategoriesDoc :: "string \<Rightarrow> json \<Rightarrow> world \<Rightarrow> world option" where
  "setCategoriesDoc uid d w =
     (if callFails w (CategoriesDoc uid) then None
      else Some (w\<lparr>categoriesDocs := AList.update uid d (categoriesDocs w)\<rparr>))"

definition deleteLedgerDoc :: "string \<Rightarrow> string \<Rightarrow> world \<Rightarrow> world option" where
  "deleteLedgerDoc uid lid w =
     (if callFails w (LedgerDoc uid lid) then None
      else Some (w\<lparr>ledgerDocs := AList.delete (uid, lid) (ledgerDocs w)\<rparr>))"

definition getLedgerDocs :: "string \<Rightarrow> world \<Rightarrow> (string \<times> ledger_doc) list option" where
  "getLedgerDocs uid w =
     (if failing w (LedgersCollection uid) then None
      else Some [(lid, d). ((u, lid), d) \<leftarrow> ledgerDocs w, u = uid])"

definition getTxnDocs :: "string \<Rightarrow> string \<Rightarrow> world \<Rightarrow> (string \<times> txn_doc) list option" where
  "getTxnDocs uid lid w =
     (if failing w (TransactionsCollection uid lid) then None
      else Some [(tid, d). ((u, l, tid), d) \<leftarrow> txnDocs w, u = uid \<and> l = lid])"

section \<open>Synchronising one ledger (storage.js, syncLedgerToFirebase)\<close>

text \<open>
  The function works on the ledger object it is given, here the value that the object
  is stored as. It catches every error and returns nothing: an error ends it, and what
  it wrote before stays.

  \<open>orEmpty v\<close> is \<open>v || ''\<close>.
\<close>

definition orEmpty :: "json option \<Rightarrow> json" where
  "orEmpty v = (case v of None \<Rightarrow> JStr [] | Some x \<Rightarrow> if truthy v then x else JStr [])"

text \<open>
  The body of the loop over the transactions; \<open>None\<close> when it throws. Reading
  \<open>transaction.id\<close> of \<open>null\<close> throws; \<open>doc\<close> throws for an id that is no text or gives no
  reference; \<open>setDoc\<close> throws for a document with a field that is \<open>undefined\<close>, and it
  may reject.
\<close>

definition writeTransaction :: "string \<Rightarrow> string \<Rightarrow> json \<Rightarrow> world \<Rightarrow> world option" where
  "writeTransaction uid lid transaction w = do {
     tid \<leftarrow> asStr (getProp transaction ''id'');
     ty \<leftarrow> getProp transaction ''type'';
     a \<leftarrow> getProp transaction ''amount'';
     d \<leftarrow> getProp transaction ''date'';
     ba \<leftarrow> getProp transaction ''balanceAfter'';
     setTxnDoc uid lid tid
       \<lparr> doc_type = ty, doc_amount = a, doc_date = d, doc_balanceAfter = ba \<rparr> w
   }"

fun writeTransactions :: "string \<Rightarrow> string \<Rightarrow> json list \<Rightarrow> world \<Rightarrow> world" where
  "writeTransactions uid lid [] w = w"
| "writeTransactions uid lid (transaction # rest) w =
     (case writeTransaction uid lid transaction w of
        None \<Rightarrow> w
      | Some w' \<Rightarrow> writeTransactions uid lid rest w')"

text \<open>
  Writing the ledger document; \<open>None\<close> when it throws (a ledger that is \<open>null\<close>, an id that
  is no text or gives no reference, a \<open>name\<close> or \<open>balance\<close> that is \<open>undefined\<close>) or the
  write rejects.
\<close>

definition writeLedger :: "string \<Rightarrow> json \<Rightarrow> world \<Rightarrow> (string \<times> world) option" where
  "writeLedger uid ledger w = do {
     lid \<leftarrow> asStr (getProp ledger ''id'');
     n \<leftarrow> getProp ledger ''name'';
     b \<leftarrow> getProp ledger ''balance'';
     w' \<leftarrow> setLedgerDoc uid lid
             \<lparr> doc_name = n, doc_balance = b, doc_phone = orEmpty (getProp ledger ''phone''),
               doc_address = orEmpty (getProp ledger ''address''),
               doc_updatedAt = clock w \<rparr> w;
     Some (lid, w')
   }"

text \<open>
  After the ledger document the transactions are written when
  \<open>ledger.transactions && ledger.transactions.length > 0\<close>. Transactions that are no
  array are either skipped by this test or make the loop throw before it writes.
\<close>

definition syncLedgerToFirebase :: "json \<Rightarrow> world \<Rightarrow> world" where
  "syncLedgerToFirebase ledger w =
     (case currentUser w of
        None \<Rightarrow> w
      | Some uid \<Rightarrow>
          (case writeLedger uid ledger w of
             None \<Rightarrow> w
           | Some (lid, w') \<Rightarrow>
               (case getProp ledger ''transactions'' of
                  Some (JArr ts) \<Rightarrow> writeTransactions uid lid ts w'
                | _ \<Rightarrow> w')))"

section \<open>Saving and deleting (storage.js)\<close>

text \<open>
  \<open>saveLedger\<close> and \<open>deleteTransaction\<close> start a synchronisation without awaiting it.
  The model returns what was started as a list of tasks, beside the result and the
  state in which the function returns.

  The item under a ledgers key is an object, as every writer of the source writes one.
  For an item that is no object the functions of the model return false without an
  effect.

  The synchronisation that \<open>saveLedger\<close> starts reads the ledger object it was given;
  the task keeps that ledger, and running the task reads it in its stored form.
\<close>

datatype task = SyncLedger ledger | SyncAll

definition saveLedger :: "ledger \<Rightarrow> world \<Rightarrow> bool \<times> world \<times> task list" where
  "saveLedger ledger w =
     (case getAllLedgers w of
        JObj allLedgers \<Rightarrow>
          let w' = setItem (getLedgersKey w)
                     (JObj (AList.update (ledger_id ledger) (ledger_json ledger) allLedgers)) w
          in (True, w', if autoBackup w' then [SyncLedger ledger] else [])
      | _ \<Rightarrow> (False, w, []))"

text \<open>
  \<open>deleteTransaction\<close> works on the stored object as it is: it reads the ledger's
  \<open>transactions\<close>, of every transaction its \<open>id\<close>, \<open>type\<close> and \<open>amount\<close>, and writes back
  \<open>{ ...ledger, balance: newBalance, transactions: updatedTransactions }\<close>, which keeps
  every other property of the ledger and every remaining transaction unchanged.

  \<open>keeps transactionId t\<close> is the filter's test \<open>t.id !== transactionId\<close>.
\<close>

definition keeps :: "string \<Rightarrow> json \<Rightarrow> bool" where
  "keeps transactionId t = (getProp t ''id'' \<noteq> Some (JStr transactionId))"

definition isCredit :: "json \<Rightarrow> bool" where
  "isCredit t = (getProp t ''type'' = Some (JStr ''credit''))"

text \<open>
  The number that \<open>newBalance -= t.amount\<close> and \<open>newBalance += t.amount\<close> read the amount
  as: a number is itself, \<open>null\<close> is 0, a boolean is 0 or 1, and an amount that is missing
  gives NaN, for which \<open>None\<close> stands. With an amount that is text, an array or an object
  \<open>+=\<close> joins text; the model does not follow that and gives \<open>None\<close> too. No writer of
  the application stores such an amount.
\<close>

fun toNumber :: "json option \<Rightarrow> int option" where
  "toNumber (Some (JNum n)) = Some n"
| "toNumber (Some JNull) = Some 0"
| "toNumber (Some (JBool b)) = Some (if b then 1 else 0)"
| "toNumber _ = None"

text \<open>
  The balance that the \<open>forEach\<close> computes: a credit is subtracted, every other
  transaction added; NaN stays NaN. \<open>JSON.stringify\<close> writes NaN as \<open>null\<close>.
\<close>

definition deleteBalance :: "json list \<Rightarrow> int option" where
  "deleteBalance ts =
     foldl (\<lambda>newBalance t.
              case (newBalance, toNumber (getProp t ''amount'')) of
                (Some b, Some a) \<Rightarrow> Some (if isCredit t then b - a else b + a)
              | _ \<Rightarrow> None)
       (Some 0) ts"

text \<open>The amount of a transaction whose \<open>amount\<close> is a number.\<close>

definition hasAmount :: "json \<Rightarrow> bool" where
  "hasAmount t = (asNum (getProp t ''amount'') \<noteq> None)"

definition amountOf :: "json \<Rightarrow> int" where
  "amountOf t = (case asNum (getProp t ''amount'') of Some a \<Rightarrow> a | None \<Rightarrow> 0)"

text \<open>
  The function returns false when the ledger is missing or falsy, and when an error is
  thrown and caught: \<open>ledger.transactions\<close> that is not an array has no \<open>filter\<close> (so
  for a ledger that is no object), and reading \<open>t.id\<close> of a transaction that is \<open>null\<close>
  throws. The properties of a parsed object have distinct names, so \<open>{ ...ledger }\<close>
  has the properties of \<open>ledger\<close> in their order.
\<close>

definition deleteTransaction :: "string \<Rightarrow> string \<Rightarrow> world \<Rightarrow> bool \<times> world \<times> task list" where
  "deleteTransaction ledgerId transactionId w =
     (case getAllLedgers w of
        JObj allLedgers \<Rightarrow>
          (case map_of allLedgers ledgerId of
             None \<Rightarrow> (False, w, [])
           | Some ledger \<Rightarrow>
               if \<not> truthy (Some ledger) then (False, w, [])
               else
                 (case ledger of
                    JObj props \<Rightarrow>
                      (case map_of props ''transactions'' of
                         Some (JArr ts) \<Rightarrow>
                           if list_ex (\<lambda>t. t = JNull) ts then (False, w, [])
                           else
                             let updatedTransactions' = filter (keeps transactionId) ts;
                                 newBalance = optNum (deleteBalance updatedTransactions');
                                 updatedLedger' =
                                   JObj (AList.update ''transactions''
                                           (JArr updatedTransactions')
                                           (AList.update ''balance'' newBalance props));
                                 w' = setItem (getLedgersKey w)
                                        (JObj (AList.update ledgerId updatedLedger'
                                                 allLedgers)) w
                             in (True, w',
                                 if currentUser w' \<noteq> None \<and> autoBackup w' then [SyncAll]
                                 else [])
                       | _ \<Rightarrow> (False, w, []))
                  | _ \<Rightarrow> (False, w, [])))
      | _ \<Rightarrow> (False, w, []))"

definition deleteLedger :: "string \<Rightarrow> world \<Rightarrow> bool \<times> world" where
  "deleteLedger ledgerId w =
     (case getAllLedgers w of
        JObj allLedgers \<Rightarrow>
          let w' = setItem (getLedgersKey w) (JObj (AList.delete ledgerId allLedgers)) w
          in (case currentUser w' of
                None \<Rightarrow> (True, w')
              | Some uid \<Rightarrow>
                  if autoBackup w' then
                    (case deleteLedgerDoc uid ledgerId w' of
                       None \<Rightarrow> (False, w')
                     | Some w'' \<Rightarrow> (True, w''))
                  else (True, w'))
      | _ \<Rightarrow> (False, w))"

text \<open>
  \<open>clearAllData\<close> removes the ledgers of the current identity and of the guest, and
  deletes the ledger documents of a signed-in user (\<open>Promise.all\<close> over the deletes; a
  failure on the remote side is caught and ignored).
\<close>

fun deleteDocs :: "string \<Rightarrow> string list \<Rightarrow> world \<Rightarrow> world" where
  "deleteDocs uid [] w = w"
| "deleteDocs uid (lid # rest) w =
     deleteDocs uid rest (case deleteLedgerDoc uid lid w of None \<Rightarrow> w | Some w' \<Rightarrow> w')"

definition clearAllData :: "world \<Rightarrow> bool \<times> world" where
  "clearAllData w =
     (let w' = w\<lparr>items := (items w)(getLedgersKey w := None, ''ledgers_guest'' := None)\<rparr>
      in (True,
          case currentUser w' of
            None \<Rightarrow> w'
          | Some uid \<Rightarrow>
              (case getLedgerDocs uid w' of
                 None \<Rightarrow> w'
               | Some docs \<Rightarrow> deleteDocs uid (map fst docs) w')))"

text \<open>
  \<open>handleConfirm\<close> of the add/edit screen, with its effect: nothing happens for an amount
  that is not positive, otherwise the recomputed ledger is saved.
\<close>

definition handleConfirm :: "route_params \<Rightarrow> form_state \<Rightarrow> world \<Rightarrow> world \<times> task list" where
  "handleConfirm p f w =
     (case updatedLedger p f of
        None \<Rightarrow> (w, [])
      | Some l \<Rightarrow> snd (saveLedger l w))"

section \<open>Fetching from the remote store (storage.js, fetchFromFirebase)\<close>

text \<open>
  A fetched transaction is \<open>{ id: txnDoc.id, ...txnDoc.data() }\<close>. The transactions are
  sorted with \<open>new Date(a.date) - new Date(b.date)\<close>; \<open>dateKey\<close> is the number that
  \<open>new Date(a.date)\<close> stands for. In the model a date is kept as that number; \<open>null\<close>
  stands for 0 and a boolean for 0 or 1. Text, an array or an object in the place of a
  date is no date of the model, and the order in which the source's sort leaves such
  transactions is not modelled.
\<close>

definition fetchedTransaction :: "string \<times> txn_doc \<Rightarrow> json" where
  "fetchedTransaction txnDoc =
     JObj [(''id'', JStr (fst txnDoc)), (''type'', doc_type (snd txnDoc)),
           (''amount'', doc_amount (snd txnDoc)), (''date'', doc_date (snd txnDoc)),
           (''balanceAfter'', doc_balanceAfter (snd txnDoc))]"

definition dateKey :: "json \<Rightarrow> int" where
  "dateKey t =
     (case getProp t ''date'' of
        Some (JNum n) \<Rightarrow> n
      | Some (JBool b) \<Rightarrow> (if b then 1 else 0)
      | _ \<Rightarrow> 0)"

definition fetchedLedger :: "string \<Rightarrow> ledger_doc \<Rightarrow> (string \<times> txn_doc) list \<Rightarrow> json" where
  "fetchedLedger lid ledgerData txns =
     JObj [(''id'', JStr lid), (''name'', doc_name ledgerData),
           (''balance'', doc_balance ledgerData),
           (''phone'', orEmpty (Some (doc_phone ledgerData))),
           (''address'', orEmpty (Some (doc_address ledgerData))),
           (''transactions'', JArr (sort_key dateKey (map fetchedTransaction txns)))]"

text \<open>The loop over the ledger documents; \<open>None\<close> when reading a subcollection rejects.\<close>

fun fetchLedgers ::
  "string \<Rightarrow> (string \<times> ledger_doc) list \<Rightarrow> world \<Rightarrow> (string \<times> json) list
     \<Rightarrow> (string \<times> json) list option" where
  "fetchLedgers uid [] w allLedgers = Some allLedgers"
| "fetchLedgers uid (ledgerDoc # rest) w allLedgers =
     (case getTxnDocs uid (fst ledgerDoc) w of
        None \<Rightarrow> None
      | Some txns \<Rightarrow>
          fetchLedgers uid rest w
            (AList.update (fst ledgerDoc)
               (fetchedLedger (fst ledgerDoc) (snd ledgerDoc) txns) allLedgers))"

text \<open>
  The result is \<open>None\<close> when the function throws (it rethrows what it catches), otherwise
  the collection it returns.
\<close>

definition fetchFromFirebase :: "world \<Rightarrow> json option \<times> world" where
  "fetchFromFirebase w =
     (case currentUser w of
        None \<Rightarrow> (Some (JObj []), w)
      | Some uid \<Rightarrow>
          (case getLedgerDocs uid w of
             None \<Rightarrow> (None, w)
           | Some docs \<Rightarrow>
               (case fetchLedgers uid docs w [] of
                  None \<Rightarrow> (None, w)
                | Some allLedgers \<Rightarrow>
                    (Some (JObj allLedgers),
                     setItem (getLedgersKey w) (JObj allLedgers) w))))"

section \<open>Synchronising everything (storage.js, syncAllToFirebase)\<close>

text \<open>
  The loop \<open>for (const ledgerId in allLedgers)\<close> awaits \<open>syncLedgerToFirebase\<close> for every
  stored ledger; that function never throws, so the loop always reaches its end.
\<close>

fun syncLedgers :: "json list \<Rightarrow> world \<Rightarrow> world" where
  "syncLedgers [] w = w"
| "syncLedgers (ledger # rest) w = syncLedgers rest (syncLedgerToFirebase ledger w)"

text \<open>
  The loop over the expenses: \<open>False\<close> when a write rejects or building the document
  reference throws (an expense that is \<open>null\<close>, an id that is no string or is the empty
  string, an expense that is no object); the writes made before stay.
\<close>

fun syncExpenses :: "string \<Rightarrow> json list \<Rightarrow> world \<Rightarrow> bool \<times> world" where
  "syncExpenses uid [] w = (True, w)"
| "syncExpenses uid (expense # rest) w =
     (case asStr (getProp expense ''id'') of
        None \<Rightarrow> (False, w)
      | Some eid \<Rightarrow>
          (case setExpenseDoc uid eid
                  (JObj (AList.update ''updatedAt'' (JStr (clock w)) (spread [] expense))) w of
             None \<Rightarrow> (False, w)
           | Some w' \<Rightarrow> syncExpenses uid rest w'))"

definition syncAllToFirebase :: "world \<Rightarrow> bool \<times> world" where
  "syncAllToFirebase w =
     (case currentUser w of
        None \<Rightarrow> (False, w)
      | Some uid \<Rightarrow>
          let w1 = syncLedgers (ownValues (getAllLedgers w)) w in
          (case forOf (getExpenses w1) of
             Some allExpenses \<Rightarrow>
               let (written, w2) = syncExpenses uid allExpenses w1 in
               if \<not> written then (False, w2)
               else
                 (case setCategoriesDoc uid
                         (JObj [(''list'', getCategories w2),
                                (''updatedAt'', JStr (clock w2))]) w2 of
                    None \<Rightarrow> (False, w2)
                  | Some w3 \<Rightarrow>
                      (True, updateBackupSettings [(''lastSync'', JStr (clock w3))] w3))
           | None \<Rightarrow> (False, w1)))"

text \<open>Running a task that was started without being awaited.\<close>

definition runTask :: "task \<Rightarrow> world \<Rightarrow> world" where
  "runTask t w =
     (case t of
        SyncLedger ledger \<Rightarrow> syncLedgerToFirebase (ledger_json ledger) w
      | SyncAll \<Rightarrow> snd (syncAllToFirebase w))"

section \<open>Backup files (backup.js)\<close>

text \<open>
  \<open>exportDataToBackup\<close> writes \<open>JSON.stringify(backupData)\<close> to a file; the model gives
  \<open>backupData\<close>, the value that the file's text parses to, and \<open>None\<close> when the function
  fails before it writes (\<open>Object.keys(null)\<close> and \<open>null.length\<close> throw). Writing and
  sharing the file are taken to succeed.
\<close>

definition exportDataToBackup :: "world \<Rightarrow> json option" where
  "exportDataToBackup w =
     (let allLedgers = getAllLedgers w;
          expenses = (case items w (''expenses_'' @ userOrGuest w) of
                        None \<Rightarrow> JArr [] | Some v \<Rightarrow> v);
          categories = (case items w (''categories_'' @ userOrGuest w) of
                          None \<Rightarrow> JArr [] | Some v \<Rightarrow> v)
      in if allLedgers = JNull \<or> expenses = JNull \<or> categories = JNull then None
         else Some (JObj [(''version'', JStr ''1.0''), (''exportDate'', JStr (clock w)),
                          (''ledgers'', allLedgers), (''expenses'', expenses),
                          (''categories'', categories)]))"

text \<open>
  What the user's choice of a file gives \<open>importDataFromBackup\<close>: the picker was
  cancelled (mobile), no file was selected (web), the file could not be read or its text
  does not parse (with the error's message), or the parsed content.
\<close>

datatype picked = Cancelled | NoFileSelected | Unreadable string | Content json

datatype import_result = ImportSuccess nat | ImportFailure string

definition LEDGERS_KEY :: string where
  "LEDGERS_KEY = ''ledgers''"

definition importDataFromBackup :: "picked \<Rightarrow> world \<Rightarrow> import_result \<times> world" where
  "importDataFromBackup chosen w =
     (case chosen of
        Cancelled \<Rightarrow> (ImportFailure ''Cancelled'', w)
      | NoFileSelected \<Rightarrow> (ImportFailure ''No file selected'', w)
      | Unreadable message \<Rightarrow> (ImportFailure message, w)
      | Content backupData \<Rightarrow>
          if \<not> validateBackupFile backupData
          then (ImportFailure ''Invalid backup file format'', w)
          else
            (case getProp backupData ''ledgers'' of
               None \<Rightarrow> (ImportFailure ''Invalid backup file format'', w)
             | Some ledgers \<Rightarrow>
                 (ImportSuccess (length (ownValues ledgers)),
                  setItem LEDGERS_KEY ledgers w)))"


section \<open>Observations\<close>

text \<open>The ledger stored under an id, read back as \<open>getAllLedgers()[ledgerId]\<close>.\<close>

definition storedLedger :: "world \<Rightarrow> string \<Rightarrow> ledger option" where
  "storedLedger w ledgerId =
     (case getProp (getAllLedgers w) ledgerId of
        None \<Rightarrow> None
      | Some stored \<Rightarrow> ledger_of_json stored)"

text \<open>
  What \<open>getAllLedgers\<close> shows of the collection: for every ledger its id, name, balance
  and number of transactions.
\<close>

definition observed :: "world \<Rightarrow> (string \<times> string \<times> int \<times> nat) option list" where
  "observed w =
     map (\<lambda>stored.
            map_option (\<lambda>l. (ledger_id l, name l, balance l, length (transactions l)))
              (ledger_of_json stored))
       (ownValues (getAllLedgers w))"

text \<open>
  Exporting a backup, resetting the application's data, and importing the backup file
  again.
\<close>

definition exportResetImport :: "world \<Rightarrow> (import_result \<times> world) option" where
  "exportResetImport w =
     (case exportDataToBackup w of
        None \<Rightarrow> None
      | Some backupData \<Rightarrow>
          Some (importDataFromBackup (Content backupData) (snd (clearAllData w))))"

text \<open>Two states that differ in the remote documents only.\<close>

definition sameLocal :: "world \<Rightarrow> world \<Rightarrow> bool" where
  "sameLocal w w' =
     (currentUser w' = currentUser w \<and> items w' = items w \<and> failing w' = failing w
      \<and> clock w' = clock w)"

text \<open>
  The writes of \<open>syncAllToFirebase\<close> that can make it fail: an expense can be written when
  its id gives a document reference and the store accepts its document.
\<close>

definition expenseWritable :: "world \<Rightarrow> string \<Rightarrow> json \<Rightarrow> bool" where
  "expenseWritable w uid expense =
     (case asStr (getProp expense ''id'') of
        None \<Rightarrow> False
      | Some eid \<Rightarrow> \<not> callFails w (ExpenseDoc uid eid))"

definition syncSucceeds :: "world \<Rightarrow> bool" where
  "syncSucceeds w =
     (case currentUser w of
        None \<Rightarrow> False
      | Some uid \<Rightarrow>
          (case forOf (getExpenses w) of
             Some allExpenses \<Rightarrow>
               list_all (expenseWritable w uid) allExpenses
               \<and> \<not> callFails w (CategoriesDoc uid)
           | None \<Rightarrow> False))"

section \<open>Example data\<close>

definition credit100 :: txn where
  "credit100 =
     \<lparr> txn_id = ''t1'', ttype = ''credit'', amount = 100, txn_note = None, date = 1000,
       displayDate = None, billPhoto = None, balanceAfter = Some 100 \<rparr>"

definition debit30 :: txn where
  "debit30 =
     \<lparr> txn_id = ''t2'', ttype = ''debit'', amount = 30, txn_note = Some [], date = 2000,
       displayDate = Some ''02 Jan 2024'', billPhoto = None, balanceAfter = Some 70 \<rparr>"

definition ledgerOf :: "int \<Rightarrow> txn list \<Rightarrow> ledger" where
  "ledgerOf b ts =
     \<lparr> ledger_id = ''L1'', name = ''Asha'', phone = None, address = None,
       balance = b, transactions = ts, updatedAt = None \<rparr>"

text \<open>Entering a debit of 30, dated after the credit, for the ledger that holds the credit.\<close>

definition addDebit30 :: "route_params \<times> form_state" where
  "addDebit30 =
     (\<lparr> param_ledger = ledgerOf 100 [credit100], param_type = ''debit'',
        editTransaction = None \<rparr>,
      \<lparr> numAmount = 30, form_note = [], selectedDate = 2000, form_date = ''02 Jan 2024'',
        form_billPhoto = None, newId = ''t2'' \<rparr>)"

text \<open>
  Nobody is signed in: a device with nothing stored, the same device holding the ledger
  with the credit, and that device after the debit was entered on the add screen.
\<close>

definition freshWorld :: world where
  "freshWorld =
     \<lparr> currentUser = None, items = Map.empty, ledgerDocs = [], txnDocs = [],
       expenseDocs = [], categoriesDocs = [], failing = (\<lambda>p. False),
       clock = ''2024-01-03T10:00:00.000Z'' \<rparr>"

definition startWorld :: world where
  "startWorld =
     setItem ''ledgers_guest'' (JObj [(''L1'', ledger_json (ledgerOf 100 [credit100]))])
       freshWorld"

definition guestWorld :: world where
  "guestWorld = fst (handleConfirm (fst addDebit30) (snd addDebit30) startWorld)"

text \<open>
  The user \<open>u1\<close> is signed in and holds the ledger with both transactions; the
  auto-backup setting and the calls that the remote store rejects are parameters.
\<close>

definition userWorld :: "bool \<Rightarrow> (path \<Rightarrow> bool) \<Rightarrow> world" where
  "userWorld enabled rejects =
     \<lparr> currentUser = Some ''u1'',
       items = [''ledgers_u1'' \<mapsto> JObj [(''L1'', ledger_json (ledgerOf 70 [credit100, debit30]))],
                ''settings_u1'' \<mapsto> JObj [(''autoBackup'', JBool enabled)]],
       ledgerDocs = [], txnDocs = [], expenseDocs = [], categoriesDocs = [],
       failing = rejects, clock = ''2024-01-03T10:00:00.000Z'' \<rparr>"

definition expenseWorld :: "(path \<Rightarrow> bool) \<Rightarrow> world" where
  "expenseWorld rejects =
     setItem ''expenses_u1''
       (JArr [JObj [(''id'', JStr ''e1''), (''title'', JStr ''Tea''), (''amount'', JNum 50)]])
       (userWorld False rejects)"

text \<open>
  The ledger as the application stores it after "Given" 100 and "Received" 30 were
  entered on the ledger screen (types \<open>'credit'\<close> and \<open>'payment'\<close>) and the customer
  profile was updated (\<open>phone\<close>, \<open>address\<close> and \<open>updatedAt\<close> added); \<open>u1\<close> is signed in
  with auto-backup on.
\<close>

definition received30 :: txn where
  "received30 =
     \<lparr> txn_id = ''t2'', ttype = ''payment'', amount = 30, txn_note = Some [], date = 2000,
       displayDate = Some ''02 Jan 2024'', billPhoto = None, balanceAfter = Some 70 \<rparr>"

definition profiledLedger :: "int \<Rightarrow> txn list \<Rightarrow> json" where
  "profiledLedger b ts =
     JObj [(''id'', JStr ''L1''), (''name'', JStr ''Asha''), (''balance'', JNum b),
           (''transactions'', JArr (map txn_json ts)), (''phone'', JStr ''9800000000''),
           (''address'', JStr ''Pune''), (''updatedAt'', JStr ''2024-01-02T09:00:00.000Z'')]"

definition profileWorld :: world where
  "profileWorld =
     \<lparr> currentUser = Some ''u1'',
       items = [''ledgers_u1'' \<mapsto> JObj [(''L1'', profiledLedger 70 [credit100, received30])],
                ''settings_u1'' \<mapsto> JObj [(''autoBackup'', JBool True)]],
       ledgerDocs = [], txnDocs = [], expenseDocs = [], categoriesDocs = [],
       failing = (\<lambda>p. False), clock = ''2024-01-03T10:00:00.000Z'' \<rparr>"

text \<open>The state after \<open>u1\<close> has pressed "Backup now", with auto-backup off or on.\<close>

definition backedUp :: "bool \<Rightarrow> world" where
  "backedUp enabled = snd (syncAllToFirebase (userWorld enabled (\<lambda>p. False)))"

text \<open>Backup files.\<close>

definition backupVersion0 :: json where
  "backupVersion0 = JObj [(''version'', JNum 0), (''ledgers'', JObj [])]"

definition backupOddTransactions :: json where
  "backupOddTransactions =
     JObj [(''version'', JStr ''1.0''),
           (''ledgers'',
            JObj [(''L1'', JObj [(''id'', JStr ''L1''), (''name'', JStr ''Asha''),
                                (''balance'', JNum 0), (''transactions'', JBool False)])])]"

definition backupWithoutLedgers :: json where
  "backupWithoutLedgers =
     JObj [(''version'', JStr ''1.0''), (''exportDate'', JStr ''2024-01-03T10:00:00.000Z'')]"

section \<open>The recomputation of balances\<close>

lemma signed_if: "signed t = (if ttype t = ''credit'' then amount t else - amount t)"
  by (simp add: signed_def)

lemma recalculate_final: "snd (recalculate rb ts) = rb + signedSum ts"
  by (induction ts arbitrary: rb)
    (simp_all add: Let_def signedSum_def signed_if case_prod_unfold)

lemma recalculate_length: "length (fst (recalculate rb ts)) = length ts"
  by (induction ts arbitrary: rb) (simp_all add: Let_def case_prod_unfold)

lemma recalculate_nth:
  "i < length ts \<Longrightarrow>
   fst (recalculate rb ts) ! i =
     (ts ! i)\<lparr>balanceAfter := Some (rb + signedSum (take (Suc i) ts))\<rparr>"
proof (induction ts arbitrary: rb i)
  case Nil
  then show ?case by simp
next
  case (Cons t ts)
  show ?case
  proof (cases i)
    case 0
    then show ?thesis
      by (simp add: Let_def signedSum_def signed_if case_prod_unfold)
  next
    case (Suc j)
    with Cons.prems have "j < length ts" by simp
    from Cons.IH [OF this] Suc show ?thesis
      by (simp add: Let_def signedSum_def signed_if case_prod_unfold)
  qed
qed

lemma recalculate_cumulative: "recalculate 0 ts = (cumulative ts, signedSum ts)"
proof -
  have "fst (recalculate 0 ts) = cumulative ts"
    by (rule nth_equalityI) (simp_all add: recalculate_length cumulative_def recalculate_nth)
  moreover have "snd (recalculate 0 ts) = signedSum ts"
    by (simp add: recalculate_final)
  ultimately show ?thesis by (simp add: prod_eq_iff)
qed

lemma updatedLedger_eq:
  "0 < numAmount f \<Longrightarrow>
   updatedLedger p f =
     Some ((param_ledger p)
       \<lparr>balance := signedSum (sort_key date (updatedTransactions p f)),
        transactions := cumulative (sort_key date (updatedTransactions p f))\<rparr>)"
  by (simp add: updatedLedger_def recalculate_cumulative)

lemma updatedLedger_addDebit30:
  "updatedLedger (fst addDebit30) (snd addDebit30) = Some (ledgerOf 70 [credit100, debit30])"
  by (simp add: addDebit30_def updatedLedger_def updatedTransactions_def transactionData_def
      ledgerOf_def credit100_def debit30_def)

text \<open>
  Claim C4. When the amount is positive, the add/edit path saves the ledger whose
  transaction list is the updated list sorted ascending by date (a stable sort), each
  transaction carrying as \<open>balanceAfter\<close> the running total up to and including itself
  (amount added for a credit, subtracted for a debit), and whose \<open>balance\<close> is the final
  running total. For the transactions credit 100, debit 30 the balance is 70 and the
  \<open>balanceAfter\<close> values are 100 and 70.
\<close>

theorem handleConfirm_recalculates:
  "(\<forall>p f. 0 < numAmount f \<longrightarrow>
      (let ts = sort_key date (updatedTransactions p f) in
         sorted (map date ts) \<and> mset ts = mset (updatedTransactions p f) \<and>
         updatedLedger p f =
           Some ((param_ledger p)\<lparr>balance := signedSum ts, transactions := cumulative ts\<rparr>)))
   \<and> recalculate 0 (sort_key date [debit30, credit100]) =
       ([credit100\<lparr>balanceAfter := Some 100\<rparr>, debit30\<lparr>balanceAfter := Some 70\<rparr>], 70)
   \<and> map_option (\<lambda>l. (balance l, map balanceAfter (transactions l)))
         (updatedLedger (fst addDebit30) (snd addDebit30)) = Some (70, [Some 100, Some 70])"
proof (intro conjI allI impI)
  fix p :: route_params and f :: form_state
  assume "0 < numAmount f"
  then show "let ts = sort_key date (updatedTransactions p f) in
         sorted (map date ts) \<and> mset ts = mset (updatedTransactions p f) \<and>
         updatedLedger p f =
           Some ((param_ledger p)\<lparr>balance := signedSum ts, transactions := cumulative ts\<rparr>)"
    by (simp add: Let_def updatedLedger_eq)
next
  show "recalculate 0 (sort_key date [debit30, credit100]) =
       ([credit100\<lparr>balanceAfter := Some 100\<rparr>, debit30\<lparr>balanceAfter := Some 70\<rparr>], 70)"
    by (simp add: credit100_def debit30_def)
next
  show "map_option (\<lambda>l. (balance l, map balanceAfter (transactions l)))
         (updatedLedger (fst addDebit30) (snd addDebit30)) = Some (70, [Some 100, Some 70])"
    by (simp add: updatedLedger_addDebit30 ledgerOf_def credit100_def debit30_def)
qed

theorem handleConfirm_recalculates_witness:
  "0 < numAmount (snd addDebit30)
   \<and> updatedLedger (fst addDebit30) (snd addDebit30) =
       Some ((ledgerOf 100 [credit100])
         \<lparr>balance := 70, transactions := [credit100, debit30]\<rparr>)"
proof -
  have pos: "0 < numAmount (snd addDebit30)"
    by (simp add: addDebit30_def)
  from handleConfirm_recalculates pos
  have "updatedLedger (fst addDebit30) (snd addDebit30) =
     Some ((param_ledger (fst addDebit30))
       \<lparr>balance := signedSum (sort_key date (updatedTransactions (fst addDebit30) (snd addDebit30))),
        transactions :=
          cumulative (sort_key date (updatedTransactions (fst addDebit30) (snd addDebit30)))\<rparr>)"
    by (simp add: Let_def)
  with pos show ?thesis
    by (simp add: addDebit30_def updatedTransactions_def transactionData_def ledgerOf_def
        credit100_def debit30_def cumulative_def signedSum_def signed_def)
qed

section \<open>Facts about the storage keys and the stored text\<close>

lemma setItem_fields [simp]:
  "items (setItem k v w) = (items w)(k \<mapsto> v)"
  "currentUser (setItem k v w) = currentUser w"
  "failing (setItem k v w) = failing w"
  "clock (setItem k v w) = clock w"
  "ledgerDocs (setItem k v w) = ledgerDocs w"
  "txnDocs (setItem k v w) = txnDocs w"
  "expenseDocs (setItem k v w) = expenseDocs w"
  "categoriesDocs (setItem k v w) = categoriesDocs w"
  by (simp_all add: setItem_def)

lemma userOrGuest_setItem [simp]: "userOrGuest (setItem k v w) = userOrGuest w"
  by (simp add: userOrGuest_def)

lemma keys_setItem [simp]:
  "getLedgersKey (setItem k v w) = getLedgersKey w"
  "getSettingsKey (setItem k v w) = getSettingsKey w"
  "getExpensesKey (setItem k v w) = getExpensesKey w"
  "getCategoriesKey (setItem k v w) = getCategoriesKey w"
  by (simp_all add: getLedgersKey_def getSettingsKey_def getExpensesKey_def getCategoriesKey_def)

lemma settingsKey_neq_ledgersKey: "getSettingsKey w \<noteq> getLedgersKey w'"
  by (simp add: getSettingsKey_def getLedgersKey_def)

lemma ledgersKey_neq_LEDGERS_KEY: "getLedgersKey w \<noteq> LEDGERS_KEY"
  by (simp add: getLedgersKey_def LEDGERS_KEY_def)

lemma getBackupSettings_setItem_ledgers:
  "getBackupSettings (setItem (getLedgersKey w') v w) = getBackupSettings w"
  using settingsKey_neq_ledgersKey [of w w']
  by (simp add: getBackupSettings_def)

lemma autoBackup_setItem_ledgers:
  "autoBackup (setItem (getLedgersKey w') v w) = autoBackup w"
  by (simp add: autoBackup_def getBackupSettings_setItem_ledgers)

lemma txn_of_json_txn_json [simp]: "txn_of_json (txn_json t) = Some t"
  by (cases "txn_note t"; cases "displayDate t"; cases "billPhoto t"; cases "balanceAfter t")
    (simp_all add: txn_of_json_def txn_json_def optStr_def optNum_def)

lemma those_txn_of_json [simp]: "those (map (txn_of_json \<circ> txn_json) ts) = Some ts"
  by (induction ts) simp_all

lemma ledger_of_json_ledger_json [simp]: "ledger_of_json (ledger_json l) = Some l"
  by (cases "phone l"; cases "address l"; cases "updatedAt l")
    (simp_all add: ledger_of_json_def ledger_json_def optStr_def)

section \<open>Deleting a transaction\<close>

lemma deleteTransaction_found:
  assumes "getAllLedgers w = JObj allLedgers"
    and "map_of allLedgers ledgerId = Some (JObj props)"
    and "map_of props ''transactions'' = Some (JArr ts)"
    and "\<not> list_ex (\<lambda>t. t = JNull) ts"
  shows "deleteTransaction ledgerId transactionId w =
     (True,
      setItem (getLedgersKey w)
        (JObj (AList.update ledgerId
           (JObj (AList.update ''transactions'' (JArr (filter (keeps transactionId) ts))
                    (AList.update ''balance''
                       (optNum (deleteBalance (filter (keeps transactionId) ts))) props)))
           allLedgers)) w,
      if currentUser w \<noteq> None \<and> autoBackup w then [SyncAll] else [])"
  using assms by (simp add: deleteTransaction_def Let_def autoBackup_setItem_ledgers)

lemma deleteBalance_foldl:
  "list_all hasAmount ts \<Longrightarrow>
   foldl (\<lambda>newBalance t.
            case (newBalance, toNumber (getProp t ''amount'')) of
              (Some b, Some a) \<Rightarrow> Some (if isCredit t then b - a else b + a)
            | _ \<Rightarrow> None) (Some b) ts
     = Some (b + sum_list (map (\<lambda>t. if isCredit t then - amountOf t else amountOf t) ts))"
proof (induction ts arbitrary: b)
  case Nil
  show ?case by simp
next
  case (Cons t ts)
  from Cons.prems obtain a where a: "getProp t ''amount'' = Some (JNum a)"
    by (cases "getProp t ''amount''" rule: asNum.cases) (simp_all add: hasAmount_def)
  from Cons.prems have "list_all hasAmount ts" by simp
  from Cons.IH [OF this] a show ?case by (simp add: amountOf_def)
qed

lemma deleteBalance_sum:
  "list_all hasAmount ts \<Longrightarrow>
   deleteBalance ts =
     Some (sum_list (map (\<lambda>t. if isCredit t then - amountOf t else amountOf t) ts))"
  unfolding deleteBalance_def using deleteBalance_foldl [of ts 0] by simp

lemma hasAmount_not_null: "list_all hasAmount ts \<Longrightarrow> \<not> list_ex (\<lambda>t. t = JNull) ts"
  by (induction ts) (auto simp: hasAmount_def)

lemma hasAmount_filter: "list_all hasAmount ts \<Longrightarrow> list_all hasAmount (filter P ts)"
  by (induction ts) simp_all

text \<open>The same on a stored ledger that is the text of a ledger of the data model.\<close>

lemma txn_json_facts [simp]:
  "keeps transactionId (txn_json t) = (txn_id t \<noteq> transactionId)"
  "isCredit (txn_json t) = (ttype t = ''credit'')"
  "hasAmount (txn_json t)"
  "amountOf (txn_json t) = amount t"
  "txn_json t \<noteq> JNull"
  by (simp_all add: keeps_def isCredit_def hasAmount_def amountOf_def txn_json_def)

lemma filter_keeps_txn_json:
  "filter (keeps transactionId) (map txn_json ts) =
     map txn_json (filter (\<lambda>t. txn_id t \<noteq> transactionId) ts)"
  by (induction ts) simp_all

lemma deleteBalance_txn_json: "deleteBalance (map txn_json ts) = Some (- signedSum ts)"
proof -
  have "list_all hasAmount (map txn_json ts)"
    by (induction ts) simp_all
  then have "deleteBalance (map txn_json ts) =
      Some (sum_list (map (\<lambda>t. if isCredit t then - amountOf t else amountOf t)
        (map txn_json ts)))"
    by (rule deleteBalance_sum)
  also have "sum_list (map (\<lambda>t. if isCredit t then - amountOf t else amountOf t)
        (map txn_json ts)) = - signedSum ts"
    by (induction ts) (simp_all add: signedSum_def signed_def)
  finally show ?thesis .
qed

lemma deleteTransaction_typed:
  assumes "getAllLedgers w = JObj allLedgers"
    and "map_of allLedgers ledgerId = Some (ledger_json ledger)"
  shows "deleteTransaction ledgerId transactionId w =
     (True,
      setItem (getLedgersKey w)
        (JObj (AList.update ledgerId
           (ledger_json (ledger
              \<lparr>balance :=
                 - signedSum (filter (\<lambda>t. txn_id t \<noteq> transactionId) (transactions ledger)),
               transactions := filter (\<lambda>t. txn_id t \<noteq> transactionId) (transactions ledger)\<rparr>))
           allLedgers)) w,
      if currentUser w \<noteq> None \<and> autoBackup w then [SyncAll] else [])"
proof -
  have nonull: "\<not> list_ex (\<lambda>t. t = JNull) (map txn_json (transactions ledger))"
    by (auto simp: list_ex_iff txn_json_def)
  have stored: "map_of allLedgers ledgerId =
      Some (JObj [(''id'', JStr (ledger_id ledger)), (''name'', JStr (name ledger)),
           (''phone'', optStr (phone ledger)), (''address'', optStr (address ledger)),
           (''balance'', JNum (balance ledger)),
           (''transactions'', JArr (map txn_json (transactions ledger))),
           (''updatedAt'', optStr (updatedAt ledger))])"
    using assms(2) by (simp add: ledger_json_def)
  show ?thesis
    by (subst deleteTransaction_found [OF assms(1) stored _ nonull])
      (simp_all add: filter_keeps_txn_json deleteBalance_txn_json ledger_json_def optNum_def)
qed

lemma guestWorld_eq:
  "guestWorld =
     setItem ''ledgers_guest'' (JObj [(''L1'', ledger_json (ledgerOf 70 [credit100, debit30]))])
       startWorld"
  by (simp add: guestWorld_def handleConfirm_def updatedLedger_addDebit30 saveLedger_def
      getAllLedgers_def startWorld_def freshWorld_def getLedgersKey_def userOrGuest_def
      Let_def ledgerOf_def)

lemma guestWorld_ledgers:
  "getAllLedgers guestWorld = JObj [(''L1'', ledger_json (ledgerOf 70 [credit100, debit30]))]"
  by (simp add: guestWorld_eq getAllLedgers_def getLedgersKey_def userOrGuest_def
      startWorld_def freshWorld_def)

lemma deleteTransaction_stored:
  assumes "getAllLedgers w = JObj allLedgers"
    and "map_of allLedgers ledgerId = Some (ledger_json ledger)"
  shows "storedLedger (fst (snd (deleteTransaction ledgerId transactionId w))) ledgerId =
     Some (ledger
       \<lparr>balance :=
          - signedSum (filter (\<lambda>t. txn_id t \<noteq> transactionId) (transactions ledger)),
        transactions := filter (\<lambda>t. txn_id t \<noteq> transactionId) (transactions ledger)\<rparr>)"
  by (simp add: deleteTransaction_typed [OF assms] storedLedger_def getAllLedgers_def
      update_conv')

text \<open>
  Claim C1 (the balance is the signed sum of the remaining transactions, a credit
  counting positive, after any add, edit or delete). The add/edit path keeps it
  (\<open>updatedLedger_eq\<close>); \<open>deleteTransaction\<close> does not. The ledger holds a credit of 100
  and a debit of 30, entered through the add screen; deleting the debit leaves the
  credit alone, whose signed sum is 100, and stores the balance -100.
\<close>

theorem deleteTransaction_balance_sign:
  "fst (deleteTransaction ''L1'' ''t2'' guestWorld)
   \<and> map_option (\<lambda>l. (map txn_id (transactions l), balance l, signedSum (transactions l)))
       (storedLedger (fst (snd (deleteTransaction ''L1'' ''t2'' guestWorld))) ''L1'')
     = Some ([''t1''], - 100, 100)"
proof -
  have stored: "map_of [(''L1'', ledger_json (ledgerOf 70 [credit100, debit30]))] ''L1''
      = Some (ledger_json (ledgerOf 70 [credit100, debit30]))"
    by simp
  show ?thesis
    by (simp add: deleteTransaction_typed [OF guestWorld_ledgers stored] storedLedger_def
        getAllLedgers_def)
      (simp add: ledgerOf_def credit100_def debit30_def signedSum_def signed_def)
qed

text \<open>
  Claim C2 (after every insert, edit or delete each \<open>balanceAfter\<close> is the cumulative
  signed sum through its index in the date-sorted list). The add/edit path keeps it
  (\<open>updatedLedger_eq\<close>); \<open>deleteTransaction\<close> filters the list and leaves every
  \<open>balanceAfter\<close> as it was. Deleting the credit of 100 leaves the debit of 30 with its
  old \<open>balanceAfter\<close> of 70, where the cumulative signed sum is -30.
\<close>

theorem deleteTransaction_stale_balanceAfter:
  "fst (deleteTransaction ''L1'' ''t1'' guestWorld)
   \<and> map_option
       (\<lambda>l. (map txn_id (transactions l), map balanceAfter (transactions l),
             map balanceAfter (cumulative (sort_key date (transactions l)))))
       (storedLedger (fst (snd (deleteTransaction ''L1'' ''t1'' guestWorld))) ''L1'')
     = Some ([''t2''], [Some 70], [Some (- 30)])"
proof -
  have stored: "map_of [(''L1'', ledger_json (ledgerOf 70 [credit100, debit30]))] ''L1''
      = Some (ledger_json (ledgerOf 70 [credit100, debit30]))"
    by simp
  show ?thesis
    by (simp add: deleteTransaction_typed [OF guestWorld_ledgers stored] storedLedger_def
        getAllLedgers_def)
      (simp add: ledgerOf_def credit100_def debit30_def signedSum_def signed_def
        cumulative_def)
qed

text \<open>
  Claim C5. When the stored collection holds, under \<open>ledgerId\<close>, a ledger object whose
  \<open>transactions\<close> is an array of transactions with a numeric \<open>amount\<close>,
  \<open>deleteTransaction\<close> returns true; it removes the transactions with the given id from
  the list and leaves the others as they are, sets \<open>balance\<close> to the sum over the
  remaining transactions in which the amount of a credit is subtracted and the amount
  of every other transaction added, keeps every other property of the ledger, writes
  the whole collection back with that ledger replaced, and starts one task, \<open>SyncAll\<close>
  (not the synchronisation of the one ledger), exactly when a user is signed in and
  auto-backup is enabled; running that task is running \<open>syncAllToFirebase\<close>.
\<close>

theorem deleteTransaction_resums:
  assumes "getAllLedgers w = JObj allLedgers"
    and "map_of allLedgers ledgerId = Some (JObj props)"
    and "map_of props ''transactions'' = Some (JArr ts)"
    and "list_all hasAmount ts"
  shows "deleteTransaction ledgerId transactionId w =
     (True,
      setItem (getLedgersKey w)
        (JObj (AList.update ledgerId
           (JObj (AList.update ''transactions'' (JArr (filter (keeps transactionId) ts))
                    (AList.update ''balance''
                       (JNum (sum_list
                          (map (\<lambda>t. if isCredit t then - amountOf t else amountOf t)
                             (filter (keeps transactionId) ts))))
                       props)))
           allLedgers)) w,
      if currentUser w \<noteq> None \<and> autoBackup w then [SyncAll] else [])
    \<and> runTask SyncAll w' = snd (syncAllToFirebase w')"
  using deleteTransaction_found [OF assms(1-3) hasAmount_not_null [OF assms(4)]]
    deleteBalance_sum [OF hasAmount_filter [OF assms(4)]]
  by (simp add: optNum_def runTask_def)

lemma userWorld_ledgers:
  "getAllLedgers (userWorld enabled rejects) =
     JObj [(''L1'', ledger_json (ledgerOf 70 [credit100, debit30]))]"
  by (simp add: userWorld_def getAllLedgers_def getLedgersKey_def userOrGuest_def)

lemma userWorld_autoBackup: "autoBackup (userWorld enabled rejects) = enabled"
  by (simp add: userWorld_def autoBackup_def getBackupSettings_def getSettingsKey_def
      userOrGuest_def defaultSettings_def)

lemma profileWorld_facts:
  "getAllLedgers profileWorld = JObj [(''L1'', profiledLedger 70 [credit100, received30])]"
  "autoBackup profileWorld"
  "currentUser profileWorld = Some ''u1''"
  "getLedgersKey profileWorld = ''ledgers_u1''"
  by (simp_all add: profileWorld_def getAllLedgers_def getLedgersKey_def userOrGuest_def
      autoBackup_def getBackupSettings_def getSettingsKey_def defaultSettings_def)

theorem deleteTransaction_resums_witness:
  "deleteTransaction ''L1'' ''t1'' profileWorld =
     (True,
      setItem ''ledgers_u1'' (JObj [(''L1'', profiledLedger 30 [received30])]) profileWorld,
      [SyncAll])
   \<and> snd (snd (deleteTransaction ''L1'' ''t1'' (userWorld False (\<lambda>p. False)))) = []
   \<and> snd (snd (deleteTransaction ''L1'' ''t1'' guestWorld)) = []"
proof -
  have stored: "map_of [(''L1'', profiledLedger 70 [credit100, received30])] ''L1'' =
      Some (JObj [(''id'', JStr ''L1''), (''name'', JStr ''Asha''), (''balance'', JNum 70),
           (''transactions'', JArr [txn_json credit100, txn_json received30]),
           (''phone'', JStr ''9800000000''), (''address'', JStr ''Pune''),
           (''updatedAt'', JStr ''2024-01-02T09:00:00.000Z'')])"
    by (simp add: profiledLedger_def)
  have txns: "map_of [(''id'', JStr ''L1''), (''name'', JStr ''Asha''), (''balance'', JNum 70),
           (''transactions'', JArr [txn_json credit100, txn_json received30]),
           (''phone'', JStr ''9800000000''), (''address'', JStr ''Pune''),
           (''updatedAt'', JStr ''2024-01-02T09:00:00.000Z'')] ''transactions''
      = Some (JArr [txn_json credit100, txn_json received30])"
    by simp
  have amounts: "list_all hasAmount [txn_json credit100, txn_json received30]"
    by simp
  have a: "deleteTransaction ''L1'' ''t1'' profileWorld =
     (True,
      setItem ''ledgers_u1'' (JObj [(''L1'', profiledLedger 30 [received30])]) profileWorld,
      [SyncAll])"
    using deleteTransaction_resums [OF profileWorld_facts(1) stored txns amounts, of "''t1''"]
    by (simp add: profileWorld_facts profiledLedger_def)
      (simp add: credit100_def received30_def)
  have stored': "map_of [(''L1'', ledger_json (ledgerOf 70 [credit100, debit30]))] ''L1'' =
      Some (JObj [(''id'', JStr ''L1''), (''name'', JStr ''Asha''), (''phone'', JNull),
           (''address'', JNull), (''balance'', JNum 70),
           (''transactions'', JArr [txn_json credit100, txn_json debit30]),
           (''updatedAt'', JNull)])"
    by (simp add: ledger_json_def ledgerOf_def optStr_def)
  have txns': "map_of [(''id'', JStr ''L1''), (''name'', JStr ''Asha''), (''phone'', JNull),
           (''address'', JNull), (''balance'', JNum 70),
           (''transactions'', JArr [txn_json credit100, txn_json debit30]),
           (''updatedAt'', JNull)] ''transactions''
      = Some (JArr [txn_json credit100, txn_json debit30])"
    by simp
  have amounts': "list_all hasAmount [txn_json credit100, txn_json debit30]"
    by simp
  have b: "snd (snd (deleteTransaction ''L1'' ''t1'' guestWorld)) = []"
    using deleteTransaction_resums [OF guestWorld_ledgers stored' txns' amounts', of "''t1''"]
    by (simp add: guestWorld_eq startWorld_def freshWorld_def)
  have c: "snd (snd (deleteTransaction ''L1'' ''t1'' (userWorld False (\<lambda>p. False)))) = []"
    using deleteTransaction_resums
      [OF userWorld_ledgers [of False "\<lambda>p. False"] stored' txns' amounts', of "''t1''"]
    by (simp add: userWorld_autoBackup)
  from a b c show ?thesis by simp
qed

text \<open>
  Claim C10. When the stored collection has no ledger under \<open>ledgerId\<close>,
  \<open>deleteTransaction\<close> returns false, leaves the whole state as it is, and starts no
  synchronisation.
\<close>

theorem deleteTransaction_unknown_ledger:
  "getProp (getAllLedgers w) ledgerId = None \<Longrightarrow>
   deleteTransaction ledgerId transactionId w = (False, w, [])"
  by (cases "getAllLedgers w") (simp_all add: deleteTransaction_def)

theorem deleteTransaction_unknown_ledger_witness:
  "getProp (getAllLedgers guestWorld) ''L2'' = None
   \<and> deleteTransaction ''L2'' ''t1'' guestWorld = (False, guestWorld, [])"
proof -
  have "getProp (getAllLedgers guestWorld) ''L2'' = None"
    by (simp add: guestWorld_ledgers)
  with deleteTransaction_unknown_ledger [of guestWorld "''L2''" "''t1''"] show ?thesis
    by simp
qed

section \<open>Backup files\<close>

lemma validateLedger_truthy: "validateLedger ledger = ledgerTruthy ledger"
  by (cases ledger) (auto simp: validateLedger_def ledgerTruthy_def)

lemma validateLedgers_all: "validateLedgers ls = list_all ledgerTruthy ls"
  by (induction ls) (simp_all add: validateLedger_truthy)

text \<open>
  Claim C6, amended. \<open>validateBackupFile(data)\<close> returns true exactly when \<open>data.version\<close>
  and \<open>data.ledgers\<close> are truthy, \<open>typeof data.ledgers\<close> is \<open>'object'\<close>, and every ledger in
  \<open>data.ledgers\<close> has a truthy \<open>id\<close>, a truthy \<open>name\<close>, a \<open>balance\<close> of type number and,
  whenever its \<open>transactions\<close> is truthy, an array as \<open>transactions\<close>.
\<close>

theorem validateBackupFile_truthy:
  "validateBackupFile backupData =
     (truthy (getProp backupData ''version'') \<and> truthy (getProp backupData ''ledgers'')
      \<and> typeof (getProp backupData ''ledgers'') = ''object''
      \<and> (case getProp backupData ''ledgers'' of
            None \<Rightarrow> False
          | Some ledgers \<Rightarrow> list_all ledgerTruthy (ownValues ledgers)))"
  by (cases backupData)
    (auto simp: validateBackupFile_def validateLedgers_all split: option.splits)

text \<open>
  As the claim words it, a field counts when it is present. A backup with
  \<open>version: 0\<close> has its version field and is rejected; a ledger with
  \<open>transactions: false\<close> has a transactions field that is not an array and is accepted.
\<close>

theorem validateBackupFile_presence_counterexample:
  "validAsSpecified backupVersion0 \<and> \<not> validateBackupFile backupVersion0
   \<and> validateBackupFile backupOddTransactions \<and> \<not> validAsSpecified backupOddTransactions"
  by (simp add: validAsSpecified_def validateBackupFile_def backupVersion0_def present_def
      backupOddTransactions_def ledgerAsSpecified_def validateLedger_def)

theorem validateBackupFile_truthy_witness:
  "validateBackupFile backupOddTransactions \<and> \<not> validateBackupFile backupVersion0
   \<and> \<not> validateBackupFile backupWithoutLedgers"
  by (simp add: validateBackupFile_truthy backupOddTransactions_def backupVersion0_def
      backupWithoutLedgers_def ledgerTruthy_def)

lemma importDataFromBackup_unseen:
  "getAllLedgers (snd (importDataFromBackup chosen w)) = getAllLedgers w"
  using ledgersKey_neq_LEDGERS_KEY [of w]
  by (cases chosen) (auto simp: importDataFromBackup_def getAllLedgers_def split: option.splits)

text \<open>
  Claim C7. When the backup data fails validation, \<open>importDataFromBackup\<close> returns the
  failure "Invalid backup file format" and leaves the state as it is; data without a
  \<open>ledgers\<close> key fails validation; and no failure of the import changes the state.
\<close>

theorem import_rejects_invalid:
  "(\<forall>backupData w. \<not> validateBackupFile backupData \<longrightarrow>
      importDataFromBackup (Content backupData) w =
        (ImportFailure ''Invalid backup file format'', w))
   \<and> (\<forall>backupData. getProp backupData ''ledgers'' = None \<longrightarrow> \<not> validateBackupFile backupData)
   \<and> (\<forall>chosen w message. fst (importDataFromBackup chosen w) = ImportFailure message \<longrightarrow>
         snd (importDataFromBackup chosen w) = w)"
proof (intro conjI allI impI)
  fix backupData w
  assume "\<not> validateBackupFile backupData"
  then show "importDataFromBackup (Content backupData) w =
        (ImportFailure ''Invalid backup file format'', w)"
    by (simp add: importDataFromBackup_def)
next
  fix backupData
  assume "getProp backupData ''ledgers'' = None"
  then show "\<not> validateBackupFile backupData"
    by (cases backupData) (simp_all add: validateBackupFile_def)
next
  fix chosen w message
  assume "fst (importDataFromBackup chosen w) = ImportFailure message"
  then show "snd (importDataFromBackup chosen w) = w"
    by (cases chosen) (auto simp: importDataFromBackup_def split: if_splits option.splits)
qed

theorem import_rejects_invalid_witness:
  "getProp backupWithoutLedgers ''ledgers'' = None
   \<and> \<not> validateBackupFile backupWithoutLedgers
   \<and> importDataFromBackup (Content backupWithoutLedgers) guestWorld =
       (ImportFailure ''Invalid backup file format'', guestWorld)"
proof -
  have missing: "getProp backupWithoutLedgers ''ledgers'' = None"
    by (simp add: backupWithoutLedgers_def)
  with import_rejects_invalid have invalid: "\<not> validateBackupFile backupWithoutLedgers"
    by blast
  with import_rejects_invalid
  have "importDataFromBackup (Content backupWithoutLedgers) guestWorld =
       (ImportFailure ''Invalid backup file format'', guestWorld)"
    by blast
  with missing invalid show ?thesis by simp
qed

lemma guestWorld_export:
  "exportDataToBackup guestWorld =
     Some (JObj [(''version'', JStr ''1.0''), (''exportDate'', JStr ''2024-01-03T10:00:00.000Z''),
                 (''ledgers'', JObj [(''L1'', ledger_json (ledgerOf 70 [credit100, debit30]))]),
                 (''expenses'', JArr []), (''categories'', JArr [])])"
  by (simp add: exportDataToBackup_def guestWorld_ledgers Let_def)
    (simp add: guestWorld_eq startWorld_def freshWorld_def userOrGuest_def)

lemma guestWorld_cleared: "getAllLedgers (snd (clearAllData guestWorld)) = JObj []"
  by (simp add: clearAllData_def Let_def guestWorld_eq startWorld_def freshWorld_def
      getAllLedgers_def getLedgersKey_def userOrGuest_def)

text \<open>
  Claim C3 (importing the file that \<open>exportDataToBackup\<close> wrote reproduces the ledger
  collection that \<open>getAllLedgers\<close> shows). The import writes the ledgers under the key
  \<open>'ledgers'\<close>, which \<open>getAllLedgers\<close> never reads (\<open>importDataFromBackup_unseen\<close>): it
  reads \<open>'ledgers_<uid>'\<close> or \<open>'ledgers_guest'\<close>. The guest's collection holds one ledger;
  after export, reset of the application's data and import of the exported file, the
  import reports one restored ledger and \<open>getAllLedgers\<close> shows none.
\<close>

theorem import_does_not_restore:
  "observed guestWorld = [Some (''L1'', ''Asha'', 70, 2)]
   \<and> map_option (\<lambda>r. (fst r, observed (snd r))) (exportResetImport guestWorld)
       = Some (ImportSuccess 1, [])"
proof -
  have "observed guestWorld = [Some (''L1'', ''Asha'', 70, 2)]"
    by (simp add: observed_def guestWorld_ledgers) (simp add: ledgerOf_def)
  moreover have "fst (importDataFromBackup
      (Content (JObj [(''version'', JStr ''1.0''), (''exportDate'', JStr ''2024-01-03T10:00:00.000Z''),
                 (''ledgers'', JObj [(''L1'', ledger_json (ledgerOf 70 [credit100, debit30]))]),
                 (''expenses'', JArr []), (''categories'', JArr [])])) w) = ImportSuccess 1" for w
    by (simp add: importDataFromBackup_def validateBackupFile_def validateLedger_def
        ledger_json_def ledgerOf_def)
  ultimately show ?thesis
    by (simp add: exportResetImport_def guestWorld_export observed_def
        importDataFromBackup_unseen guestWorld_cleared)
qed

section \<open>Synchronising everything\<close>

lemma sameLocal_refl [simp]: "sameLocal w w"
  by (simp add: sameLocal_def)

lemma sameLocal_trans: "sameLocal w w' \<Longrightarrow> sameLocal w' w'' \<Longrightarrow> sameLocal w w''"
  by (simp add: sameLocal_def)

lemma setTxnDoc_local: "setTxnDoc uid lid tid d w = Some w' \<Longrightarrow> sameLocal w w'"
  by (auto simp: setTxnDoc_def sameLocal_def split: if_splits)

lemma setLedgerDoc_local: "setLedgerDoc uid lid d w = Some w' \<Longrightarrow> sameLocal w w'"
  by (auto simp: setLedgerDoc_def sameLocal_def split: if_splits)

lemma setExpenseDoc_local: "setExpenseDoc uid eid d w = Some w' \<Longrightarrow> sameLocal w w'"
  by (auto simp: setExpenseDoc_def sameLocal_def split: if_splits)

lemma setCategoriesDoc_local: "setCategoriesDoc uid d w = Some w' \<Longrightarrow> sameLocal w w'"
  by (auto simp: setCategoriesDoc_def sameLocal_def split: if_splits)

lemma writeTransaction_local:
  "writeTransaction uid lid t w = Some w' \<Longrightarrow> sameLocal w w'"
  by (auto simp: writeTransaction_def split: bind_splits dest: setTxnDoc_local)

lemma writeTransactions_local: "sameLocal w (writeTransactions uid lid ts w)"
proof (induction ts arbitrary: w)
  case Nil
  show ?case by simp
next
  case (Cons t ts)
  show ?case
  proof (cases "writeTransaction uid lid t w")
    case None
    then show ?thesis by simp
  next
    case (Some w')
    from sameLocal_trans [OF writeTransaction_local [OF Some] Cons.IH [of w']] Some
    show ?thesis by simp
  qed
qed

lemma writeLedger_local:
  "writeLedger uid ledger w = Some (lid, w') \<Longrightarrow> sameLocal w w'"
  by (auto simp: writeLedger_def split: bind_splits dest: setLedgerDoc_local)

lemma syncLedgerToFirebase_local: "sameLocal w (syncLedgerToFirebase ledger w)"
proof (cases "currentUser w")
  case None
  then show ?thesis by (simp add: syncLedgerToFirebase_def)
next
  case (Some uid)
  show ?thesis
  proof (cases "writeLedger uid ledger w")
    case None
    with Some show ?thesis by (simp add: syncLedgerToFirebase_def)
  next
    case written: (Some r)
    obtain lid w' where r: "r = (lid, w')" by (cases r)
    from written r have l: "sameLocal w w'" by (auto dest: writeLedger_local)
    from Some written r l sameLocal_trans [OF l writeTransactions_local] show ?thesis
      by (simp add: syncLedgerToFirebase_def split: option.splits json.splits)
  qed
qed

lemma syncLedgers_local: "sameLocal w (syncLedgers vs w)"
proof (induction vs arbitrary: w)
  case Nil
  show ?case by simp
next
  case (Cons v vs)
  show ?case
    using sameLocal_trans [OF syncLedgerToFirebase_local Cons.IH] by simp
qed

lemma syncExpenses_local: "sameLocal w (snd (syncExpenses uid es w))"
proof (induction es arbitrary: w)
  case Nil
  show ?case by simp
next
  case (Cons e es)
  show ?case
    by (auto split: option.splits dest!: setExpenseDoc_local intro: sameLocal_trans Cons.IH)
qed

lemma callFails_cong: "failing w' = failing w \<Longrightarrow> callFails w' = callFails w"
  by (simp add: callFails_def fun_eq_iff)

lemma expenseWritable_cong:
  "callFails w' = callFails w \<Longrightarrow> expenseWritable w' = expenseWritable w"
  by (intro ext) (simp add: expenseWritable_def split: option.splits)

lemma syncExpenses_result:
  "fst (syncExpenses uid es w) = list_all (expenseWritable w uid) es"
proof (induction es arbitrary: w)
  case Nil
  show ?case by simp
next
  case (Cons e es)
  show ?case
  proof (cases "asStr (getProp e ''id'')")
    case None
    then show ?thesis by (simp add: expenseWritable_def)
  next
    case (Some eid)
    show ?thesis
    proof (cases "callFails w (ExpenseDoc uid eid)")
      case True
      with Some show ?thesis by (simp add: expenseWritable_def setExpenseDoc_def)
    next
      case False
      let ?w' = "w\<lparr>expenseDocs := AList.update (uid, eid)
          (JObj (AList.update ''updatedAt'' (JStr (clock w)) (spread [] e))) (expenseDocs w)\<rparr>"
      have "callFails ?w' = callFails w"
        by (rule callFails_cong) simp
      then have same: "expenseWritable ?w' uid = expenseWritable w uid"
        by (rule fun_cong [OF expenseWritable_cong])
      from Some False have here: "expenseWritable w uid e"
        by (simp add: expenseWritable_def)
      from Some False have "syncExpenses uid (e # es) w = syncExpenses uid es ?w'"
        by (simp add: setExpenseDoc_def)
      with Cons.IH [of ?w'] same here show ?thesis by simp
    qed
  qed
qed

lemma sameLocal_getExpenses: "sameLocal w w' \<Longrightarrow> getExpenses w' = getExpenses w"
  by (simp add: sameLocal_def getExpenses_def getExpensesKey_def userOrGuest_def)

lemma sameLocal_callFails: "sameLocal w w' \<Longrightarrow> callFails w' = callFails w"
  by (rule callFails_cong) (simp add: sameLocal_def)

lemma sameLocal_expenseWritable: "sameLocal w w' \<Longrightarrow> expenseWritable w' = expenseWritable w"
  by (rule expenseWritable_cong) (rule sameLocal_callFails)

lemma sameLocal_lastSync: "sameLocal w w' \<Longrightarrow> lastSync w' = lastSync w"
  by (simp add: sameLocal_def lastSync_def getBackupSettings_def getSettingsKey_def
      userOrGuest_def)

lemma lastSync_updateBackupSettings:
  "lastSync (updateBackupSettings [(''lastSync'', v)] w) = Some v"
  by (simp add: lastSync_def updateBackupSettings_def getBackupSettings_def merge_conv'
      update_conv')

lemma syncAllToFirebase_result: "fst (syncAllToFirebase w) = syncSucceeds w"
proof (cases "currentUser w")
  case None
  then show ?thesis by (simp add: syncAllToFirebase_def syncSucceeds_def)
next
  case (Some uid)
  let ?w1 = "syncLedgers (ownValues (getAllLedgers w)) w"
  have l1: "sameLocal w ?w1" by (rule syncLedgers_local)
  show ?thesis
  proof (cases "forOf (getExpenses w)")
    case expenses: (Some es)
    let ?w2 = "snd (syncExpenses uid es ?w1)"
    have l2: "sameLocal w ?w2"
      by (rule sameLocal_trans [OF l1 syncExpenses_local])
    then have f2: "callFails ?w2 = callFails w" by (rule sameLocal_callFails)
    from Some expenses l1 f2 show ?thesis
      by (simp add: syncAllToFirebase_def syncSucceeds_def Let_def case_prod_unfold
          sameLocal_getExpenses syncExpenses_result sameLocal_expenseWritable
          setCategoriesDoc_def)
  qed (use Some l1 in \<open>simp_all add: syncAllToFirebase_def syncSucceeds_def Let_def
        sameLocal_getExpenses\<close>)
qed

lemma syncAllToFirebase_failure:
  "\<not> fst (syncAllToFirebase w) \<Longrightarrow> sameLocal w (snd (syncAllToFirebase w))"
proof (cases "currentUser w")
  case None
  then show ?thesis by (simp add: syncAllToFirebase_def)
next
  case (Some uid)
  assume failed: "\<not> fst (syncAllToFirebase w)"
  let ?w1 = "syncLedgers (ownValues (getAllLedgers w)) w"
  have l1: "sameLocal w ?w1" by (rule syncLedgers_local)
  show ?thesis
  proof (cases "forOf (getExpenses w)")
    case expenses: (Some es)
    let ?w2 = "snd (syncExpenses uid es ?w1)"
    have l2: "sameLocal w ?w2"
      by (rule sameLocal_trans [OF l1 syncExpenses_local])
    from Some expenses l1 l2 failed show ?thesis
      by (simp add: syncAllToFirebase_def Let_def case_prod_unfold sameLocal_getExpenses
          split: if_splits option.splits)
  qed (use Some l1 in \<open>simp_all add: syncAllToFirebase_def Let_def sameLocal_getExpenses\<close>)
qed

lemma syncAllToFirebase_success:
  assumes "fst (syncAllToFirebase w)"
  shows "lastSync (snd (syncAllToFirebase w)) = Some (JStr (clock w))"
proof (cases "currentUser w")
  case None
  with assms show ?thesis by (simp add: syncAllToFirebase_def)
next
  case (Some uid)
  let ?w1 = "syncLedgers (ownValues (getAllLedgers w)) w"
  have l1: "sameLocal w ?w1" by (rule syncLedgers_local)
  show ?thesis
  proof (cases "forOf (getExpenses w)")
    case expenses: (Some es)
    let ?w2 = "snd (syncExpenses uid es ?w1)"
    have l2: "sameLocal w ?w2"
      by (rule sameLocal_trans [OF l1 syncExpenses_local])
    have l3: "sameLocal w w3" if "setCategoriesDoc uid d ?w2 = Some w3" for d w3
      using that l2 by (blast intro: sameLocal_trans setCategoriesDoc_local)
    have c3: "clock w3 = clock w" if "setCategoriesDoc uid d ?w2 = Some w3" for d w3
      using l3 [OF that] by (simp add: sameLocal_def)
    from Some expenses l1 assms show ?thesis
      by (auto simp: syncAllToFirebase_def Let_def case_prod_unfold sameLocal_getExpenses
          lastSync_updateBackupSettings c3 split: if_splits option.splits)
  qed (use Some l1 assms in \<open>simp_all add: syncAllToFirebase_def Let_def sameLocal_getExpenses\<close>)
qed

lemma userWorld_fields [simp]:
  "currentUser (userWorld enabled rejects) = Some ''u1''"
  "failing (userWorld enabled rejects) = rejects"
  "clock (userWorld enabled rejects) = ''2024-01-03T10:00:00.000Z''"
  "ledgerDocs (userWorld enabled rejects) = []"
  "txnDocs (userWorld enabled rejects) = []"
  by (simp_all add: userWorld_def)

lemma userWorld_expenses: "getExpenses (userWorld enabled rejects) = JArr []"
  by (simp add: getExpenses_def getExpensesKey_def userOrGuest_def userWorld_def)

lemma userWorld_lastSync: "lastSync (userWorld enabled rejects) = Some JNull"
  by (simp add: lastSync_def getBackupSettings_def getSettingsKey_def userOrGuest_def
      userWorld_def defaultSettings_def merge_conv' update_conv')

lemma userWorld_syncLedgers_rejected:
  "syncLedgers (ownValues (getAllLedgers (userWorld enabled (\<lambda>p. p = LedgerDoc ''u1'' ''L1''))))
     (userWorld enabled (\<lambda>p. p = LedgerDoc ''u1'' ''L1''))
   = userWorld enabled (\<lambda>p. p = LedgerDoc ''u1'' ''L1'')"
  by (simp add: userWorld_ledgers syncLedgerToFirebase_def writeLedger_def ledger_json_def
      setLedgerDoc_def callFails_def validId_def ledgerOf_def)

lemma expenseWorld_sync:
  "ledgerDocs (snd (syncAllToFirebase (expenseWorld (\<lambda>p. p = ExpenseDoc ''u1'' ''e1'')))) =
     [((''u1'', ''L1''),
       \<lparr>doc_name = JStr ''Asha'', doc_balance = JNum 70, doc_phone = JStr [],
        doc_address = JStr [],
        doc_updatedAt = ''2024-01-03T10:00:00.000Z''\<rparr>)]"
  by (simp add: expenseWorld_def userWorld_def syncAllToFirebase_def getAllLedgers_def
      getLedgersKey_def userOrGuest_def syncLedgerToFirebase_def writeLedger_def
      writeTransaction_def ledger_json_def txn_json_def orEmpty_def optStr_def optNum_def
      setLedgerDoc_def setTxnDoc_def
      ledgerOf_def credit100_def debit30_def getExpenses_def getExpensesKey_def
      setExpenseDoc_def Let_def setItem_def callFails_def validId_def)

lemma expenseWorld_facts:
  "currentUser (expenseWorld rejects) = Some ''u1''"
  "getExpenses (expenseWorld rejects) =
     JArr [JObj [(''id'', JStr ''e1''), (''title'', JStr ''Tea''), (''amount'', JNum 50)]]"
  "failing (expenseWorld rejects) = rejects"
  "lastSync (expenseWorld rejects) = Some JNull"
  by (simp_all add: expenseWorld_def getExpenses_def getExpensesKey_def userOrGuest_def
      lastSync_def getBackupSettings_def getSettingsKey_def userWorld_def defaultSettings_def
      merge_conv' update_conv')

text \<open>
  Claim C8 (\<open>syncAllToFirebase\<close> returns false when nobody is signed in, updates
  \<open>lastSync\<close> when it runs to completion, and returns false with \<open>lastSync\<close> unchanged
  when any write inside its loops fails). The first two parts hold
  (\<open>syncAllToFirebase_result\<close>, \<open>syncAllToFirebase_success\<close>). The third holds for the
  writes of the expenses and of the categories, whose errors reach the function's
  \<open>catch\<close> (\<open>syncAllToFirebase_failure\<close>), and fails for the writes of the ledger loop:
  they are made by \<open>syncLedgerToFirebase\<close>, which catches every error and returns
  nothing. In the first state the store rejects the document of the only ledger:
  nothing is written for it, and the function returns true and changes \<open>lastSync\<close> from
  \<open>null\<close> to the current timestamp. In the second state the store rejects the document
  of the only expense: the function returns false and \<open>lastSync\<close> stays \<open>null\<close> (the
  ledger document written before stays).
\<close>

theorem syncAllToFirebase_swallows_ledger_failure:
  "failing (userWorld False (\<lambda>p. p = LedgerDoc ''u1'' ''L1'')) (LedgerDoc ''u1'' ''L1'')
   \<and> fst (syncAllToFirebase (userWorld False (\<lambda>p. p = LedgerDoc ''u1'' ''L1'')))
   \<and> ledgerDocs (snd (syncAllToFirebase (userWorld False (\<lambda>p. p = LedgerDoc ''u1'' ''L1'')))) = []
   \<and> lastSync (userWorld False (\<lambda>p. p = LedgerDoc ''u1'' ''L1'')) = Some JNull
   \<and> lastSync (snd (syncAllToFirebase (userWorld False (\<lambda>p. p = LedgerDoc ''u1'' ''L1''))))
       = Some (JStr ''2024-01-03T10:00:00.000Z'')
   \<and> failing (expenseWorld (\<lambda>p. p = ExpenseDoc ''u1'' ''e1'')) (ExpenseDoc ''u1'' ''e1'')
   \<and> \<not> fst (syncAllToFirebase (expenseWorld (\<lambda>p. p = ExpenseDoc ''u1'' ''e1'')))
   \<and> lastSync (snd (syncAllToFirebase (expenseWorld (\<lambda>p. p = ExpenseDoc ''u1'' ''e1''))))
       = Some JNull
   \<and> length (ledgerDocs (snd (syncAllToFirebase (expenseWorld (\<lambda>p. p = ExpenseDoc ''u1'' ''e1'')))))
       = 1"
proof -
  let ?w = "userWorld False (\<lambda>p. p = LedgerDoc ''u1'' ''L1'')"
  let ?e = "expenseWorld (\<lambda>p. p = ExpenseDoc ''u1'' ''e1'')"
  have ok: "fst (syncAllToFirebase ?w)"
    by (simp add: syncAllToFirebase_result syncSucceeds_def userWorld_expenses callFails_def)
  have docs: "ledgerDocs (snd (syncAllToFirebase ?w)) = []"
    by (simp add: syncAllToFirebase_def userWorld_syncLedgers_rejected userWorld_expenses
        setCategoriesDoc_def updateBackupSettings_def Let_def callFails_def)
  have failed: "\<not> fst (syncAllToFirebase ?e)"
    by (simp add: syncAllToFirebase_result syncSucceeds_def expenseWorld_facts
        expenseWritable_def callFails_def validId_def)
  from sameLocal_lastSync [OF syncAllToFirebase_failure [OF failed]]
  have unchanged: "lastSync (snd (syncAllToFirebase ?e)) = Some JNull"
    by (simp add: expenseWorld_facts)
  from ok docs syncAllToFirebase_success [OF ok] failed unchanged show ?thesis
    by (simp add: userWorld_lastSync expenseWorld_facts expenseWorld_sync)
qed

section \<open>Deleting a ledger and fetching\<close>

lemma sameLocal_getAllLedgers: "sameLocal w w' \<Longrightarrow> getAllLedgers w' = getAllLedgers w"
  by (simp add: sameLocal_def getAllLedgers_def getLedgersKey_def userOrGuest_def)

lemma sameLocal_autoBackup: "sameLocal w w' \<Longrightarrow> autoBackup w' = autoBackup w"
  by (simp add: sameLocal_def autoBackup_def getBackupSettings_def getSettingsKey_def
      userOrGuest_def)

lemma sameLocal_getCategories: "sameLocal w w' \<Longrightarrow> getCategories w' = getCategories w"
  by (simp add: sameLocal_def getCategories_def getCategoriesKey_def userOrGuest_def)

lemma sameLocal_categoriesDocs [simp]: "sameLocal w (w'\<lparr>categoriesDocs := c\<rparr>) = sameLocal w w'"
  by (simp add: sameLocal_def)

lemma updateBackupSettings_fields [simp]:
  "currentUser (updateBackupSettings s w) = currentUser w"
  "failing (updateBackupSettings s w) = failing w"
  "clock (updateBackupSettings s w) = clock w"
  "ledgerDocs (updateBackupSettings s w) = ledgerDocs w"
  "txnDocs (updateBackupSettings s w) = txnDocs w"
  by (simp_all add: updateBackupSettings_def)

lemma getAllLedgers_updateBackupSettings [simp]:
  "getAllLedgers (updateBackupSettings s w) = getAllLedgers w"
  using settingsKey_neq_ledgersKey [of w w]
  by (auto simp: updateBackupSettings_def getAllLedgers_def)

lemma autoBackup_updateBackupSettings [simp]:
  "autoBackup (updateBackupSettings [(''lastSync'', v)] w) = autoBackup w"
  by (simp add: autoBackup_def updateBackupSettings_def getBackupSettings_def merge_conv'
      update_conv' map_add_def defaultSettings_def split: option.splits)

lemma syncAllToFirebase_no_expenses:
  assumes "currentUser w = Some uid" and "getExpenses w = JArr []"
    and "\<not> failing w (CategoriesDoc uid)"
  shows "syncAllToFirebase w =
     (True,
      updateBackupSettings [(''lastSync'', JStr (clock w))]
        ((syncLedgers (ownValues (getAllLedgers w)) w)
           \<lparr>categoriesDocs :=
              AList.update uid
                (JObj [(''list'', getCategories w), (''updatedAt'', JStr (clock w))])
                (categoriesDocs (syncLedgers (ownValues (getAllLedgers w)) w))\<rparr>))"
proof -
  let ?w1 = "syncLedgers (ownValues (getAllLedgers w)) w"
  have l1: "sameLocal w ?w1" by (rule syncLedgers_local)
  then have "failing ?w1 = failing w" "clock ?w1 = clock w"
    by (simp_all add: sameLocal_def)
  with assms l1 show ?thesis
    by (simp add: syncAllToFirebase_def Let_def sameLocal_getExpenses sameLocal_getCategories
        setCategoriesDoc_def callFails_def)
qed

lemma userWorld_syncLedgers:
  "syncLedgers (ownValues (getAllLedgers (userWorld enabled (\<lambda>p. False))))
     (userWorld enabled (\<lambda>p. False))
   = (userWorld enabled (\<lambda>p. False))
       \<lparr>ledgerDocs :=
          [((''u1'', ''L1''),
            \<lparr>doc_name = JStr ''Asha'', doc_balance = JNum 70, doc_phone = JStr [],
        doc_address = JStr [],
             doc_updatedAt = ''2024-01-03T10:00:00.000Z''\<rparr>)],
        txnDocs :=
          [((''u1'', ''L1'', ''t1''),
            \<lparr>doc_type = JStr ''credit'', doc_amount = JNum 100, doc_date = JNum 1000,
             doc_balanceAfter = JNum 100\<rparr>),
           ((''u1'', ''L1'', ''t2''),
            \<lparr>doc_type = JStr ''debit'', doc_amount = JNum 30, doc_date = JNum 2000,
             doc_balanceAfter = JNum 70\<rparr>)]\<rparr>"
  by (simp add: userWorld_ledgers syncLedgerToFirebase_def writeLedger_def
      writeTransaction_def ledger_json_def txn_json_def orEmpty_def optStr_def optNum_def
      setLedgerDoc_def setTxnDoc_def
      ledgerOf_def credit100_def debit30_def callFails_def validId_def)

lemma backedUp_eq:
  "backedUp enabled =
     updateBackupSettings [(''lastSync'', JStr ''2024-01-03T10:00:00.000Z'')]
       ((userWorld enabled (\<lambda>p. False))
          \<lparr>ledgerDocs :=
             [((''u1'', ''L1''),
               \<lparr>doc_name = JStr ''Asha'', doc_balance = JNum 70, doc_phone = JStr [],
        doc_address = JStr [],
                doc_updatedAt = ''2024-01-03T10:00:00.000Z''\<rparr>)],
           txnDocs :=
             [((''u1'', ''L1'', ''t1''),
               \<lparr>doc_type = JStr ''credit'', doc_amount = JNum 100, doc_date = JNum 1000,
                doc_balanceAfter = JNum 100\<rparr>),
              ((''u1'', ''L1'', ''t2''),
               \<lparr>doc_type = JStr ''debit'', doc_amount = JNum 30, doc_date = JNum 2000,
                doc_balanceAfter = JNum 70\<rparr>)],
           categoriesDocs :=
             [(''u1'', JObj [(''list'', getCategories (userWorld enabled (\<lambda>p. False))),
                            (''updatedAt'', JStr ''2024-01-03T10:00:00.000Z'')])]\<rparr>)"
proof -
  have "syncAllToFirebase (userWorld enabled (\<lambda>p. False)) = (True,
      updateBackupSettings [(''lastSync'', JStr (clock (userWorld enabled (\<lambda>p. False))))]
        ((syncLedgers (ownValues (getAllLedgers (userWorld enabled (\<lambda>p. False))))
            (userWorld enabled (\<lambda>p. False)))
           \<lparr>categoriesDocs :=
              AList.update ''u1''
                (JObj [(''list'', getCategories (userWorld enabled (\<lambda>p. False))),
                       (''updatedAt'', JStr (clock (userWorld enabled (\<lambda>p. False))))])
                (categoriesDocs (syncLedgers (ownValues (getAllLedgers (userWorld enabled (\<lambda>p. False))))
                   (userWorld enabled (\<lambda>p. False))))\<rparr>))"
    by (rule syncAllToFirebase_no_expenses) (simp_all add: userWorld_expenses)
  then show ?thesis
    by (simp add: backedUp_def userWorld_syncLedgers) (simp add: userWorld_def)
qed

lemma backedUp_facts:
  "ledgerDocs (backedUp enabled) =
     [((''u1'', ''L1''),
       \<lparr>doc_name = JStr ''Asha'', doc_balance = JNum 70, doc_phone = JStr [],
        doc_address = JStr [],
        doc_updatedAt = ''2024-01-03T10:00:00.000Z''\<rparr>)]"
  "txnDocs (backedUp enabled) =
     [((''u1'', ''L1'', ''t1''),
       \<lparr>doc_type = JStr ''credit'', doc_amount = JNum 100, doc_date = JNum 1000, doc_balanceAfter = JNum 100\<rparr>),
      ((''u1'', ''L1'', ''t2''),
       \<lparr>doc_type = JStr ''debit'', doc_amount = JNum 30, doc_date = JNum 2000, doc_balanceAfter = JNum 70\<rparr>)]"
  "currentUser (backedUp enabled) = Some ''u1''"
  "failing (backedUp enabled) = (\<lambda>p. False)"
  "getAllLedgers (backedUp enabled) =
     JObj [(''L1'', ledger_json (ledgerOf 70 [credit100, debit30]))]"
  "autoBackup (backedUp enabled) = enabled"
proof -
  let ?u = "userWorld enabled (\<lambda>p. False)"
  have l: "sameLocal ?u (?u\<lparr>ledgerDocs := a, txnDocs := b, categoriesDocs := c\<rparr>)" for a b c
    by (simp add: sameLocal_def)
  show "getAllLedgers (backedUp enabled) =
     JObj [(''L1'', ledger_json (ledgerOf 70 [credit100, debit30]))]"
    by (simp add: backedUp_eq sameLocal_getAllLedgers [OF l] userWorld_ledgers)
  show "autoBackup (backedUp enabled) = enabled"
    by (simp add: backedUp_eq sameLocal_autoBackup [OF l] userWorld_autoBackup)
qed (simp_all add: backedUp_eq)

lemma fetchLedgers_keys:
  "fetchLedgers uid docs w acc = Some allLedgers \<Longrightarrow> map_of acc k = None \<Longrightarrow>
   k \<notin> fst ` set docs \<Longrightarrow> map_of allLedgers k = None"
proof (induction docs arbitrary: acc)
  case Nil
  then show ?case by simp
next
  case (Cons d docs)
  then show ?case
    by (auto simp: update_conv' split: option.splits)
qed

lemma fetch_absent:
  assumes "ledgerDocs w = AList.delete (uid, lid) docs0" and "currentUser w = Some uid"
    and "getProp (getAllLedgers w) lid = None"
  shows "getProp (getAllLedgers (snd (fetchFromFirebase w))) lid = None"
proof (cases "getLedgerDocs uid w")
  case None
  with assms show ?thesis by (simp add: fetchFromFirebase_def)
next
  case (Some docs)
  with assms(1) have notin: "lid \<notin> fst ` set docs"
    by (auto simp: getLedgerDocs_def AList.delete_eq split: if_splits)
  show ?thesis
  proof (cases "fetchLedgers uid docs w []")
    case None
    with Some assms show ?thesis by (simp add: fetchFromFirebase_def)
  next
    case fetched: (Some allLedgers)
    from fetchLedgers_keys [OF fetched _ notin] have "map_of allLedgers lid = None" by simp
    with Some fetched assms show ?thesis
      by (simp add: fetchFromFirebase_def getAllLedgers_def)
  qed
qed

text \<open>
  Claim C9, amended. After \<open>deleteLedger(id)\<close> has returned true, the collection that
  \<open>getAllLedgers\<close> returns has no ledger under that id; and when auto-backup is enabled
  (or nobody is signed in), \<open>fetchFromFirebase\<close> called next does not bring the ledger
  back, whether it succeeds or throws.
\<close>

theorem deleteLedger_then_fetch:
  assumes "deleteLedger ledgerId w = (True, w')"
  shows "getProp (getAllLedgers w') ledgerId = None
    \<and> (currentUser w = None \<or> autoBackup w \<longrightarrow>
         getProp (getAllLedgers (snd (fetchFromFirebase w'))) ledgerId = None)"
proof (cases "getAllLedgers w")
  case (JObj allLedgers)
  let ?w1 = "setItem (getLedgersKey w) (JObj (AList.delete ledgerId allLedgers)) w"
  have g1: "getProp (getAllLedgers ?w1) ledgerId = None"
    by (simp add: getAllLedgers_def delete_conv')
  show ?thesis
  proof (cases "currentUser w")
    case None
    with JObj assms have "w' = ?w1" by (simp add: deleteLedger_def Let_def)
    with g1 None show ?thesis by (simp add: fetchFromFirebase_def)
  next
    case (Some uid)
    show ?thesis
    proof (cases "autoBackup w")
      case False
      with JObj Some assms have "w' = ?w1"
        by (simp add: deleteLedger_def Let_def autoBackup_setItem_ledgers)
      with g1 Some False show ?thesis by simp
    next
      case True
      with JObj Some assms
      have w': "w' = ?w1\<lparr>ledgerDocs := AList.delete (uid, ledgerId) (ledgerDocs ?w1)\<rparr>"
        by (auto simp: deleteLedger_def Let_def autoBackup_setItem_ledgers deleteLedgerDoc_def
            split: if_splits)
      then have g2: "getProp (getAllLedgers w') ledgerId = None"
        using g1 by (simp add: getAllLedgers_def getLedgersKey_def userOrGuest_def)
      from w' Some have "ledgerDocs w' = AList.delete (uid, ledgerId) (ledgerDocs w)"
        and "currentUser w' = Some uid" by simp_all
      from fetch_absent [OF this g2] g2 show ?thesis by simp
    qed
  qed
qed (use assms in \<open>simp_all add: deleteLedger_def\<close>)

lemma backedUp_key: "getLedgersKey (backedUp enabled) = ''ledgers_u1''"
  by (simp add: getLedgersKey_def userOrGuest_def backedUp_facts)

lemma backedUp_setItem_autoBackup:
  "autoBackup (setItem ''ledgers_u1'' v (backedUp enabled)) = enabled"
  using autoBackup_setItem_ledgers [of "backedUp enabled" v "backedUp enabled"]
  by (simp add: backedUp_key backedUp_facts)

lemma backedUp_deleteLedger:
  "deleteLedger ''L1'' (backedUp enabled) =
     (True,
      if enabled
      then (setItem ''ledgers_u1'' (JObj []) (backedUp enabled))\<lparr>ledgerDocs := []\<rparr>
      else setItem ''ledgers_u1'' (JObj []) (backedUp enabled))"
  by (simp add: deleteLedger_def backedUp_facts Let_def backedUp_setItem_autoBackup
      deleteLedgerDoc_def backedUp_key callFails_def validId_def)

text \<open>
  As the claim words it, the fetch never brings the ledger back. With auto-backup off,
  \<open>deleteLedger\<close> leaves the remote document alone: the user has pressed "Backup now",
  deletes the ledger, and the next fetch stores it again.
\<close>

theorem deleteLedger_resurrected_counterexample:
  "\<not> autoBackup (backedUp False)
   \<and> fst (deleteLedger ''L1'' (backedUp False))
   \<and> getProp (getAllLedgers (snd (deleteLedger ''L1'' (backedUp False)))) ''L1'' = None
   \<and> map_option (\<lambda>l. (name l, balance l, length (transactions l)))
       (storedLedger (snd (fetchFromFirebase (snd (deleteLedger ''L1'' (backedUp False))))) ''L1'')
       = Some (''Asha'', 70, 2)"
  by (simp add: backedUp_deleteLedger backedUp_facts storedLedger_def getAllLedgers_def
      getLedgersKey_def userOrGuest_def fetchFromFirebase_def getLedgerDocs_def
      getTxnDocs_def fetchedLedger_def fetchedTransaction_def dateKey_def orEmpty_def
      ledger_of_json_def txn_of_json_def)

theorem deleteLedger_then_fetch_witness:
  "autoBackup (backedUp True)
   \<and> deleteLedger ''L1'' (backedUp True) =
       (True, (setItem ''ledgers_u1'' (JObj []) (backedUp True))\<lparr>ledgerDocs := []\<rparr>)
   \<and> getProp (getAllLedgers
         (snd (fetchFromFirebase
            ((setItem ''ledgers_u1'' (JObj []) (backedUp True))\<lparr>ledgerDocs := []\<rparr>)))) ''L1''
       = None"
proof -
  have d: "deleteLedger ''L1'' (backedUp True) =
       (True, (setItem ''ledgers_u1'' (JObj []) (backedUp True))\<lparr>ledgerDocs := []\<rparr>)"
    by (simp add: backedUp_deleteLedger)
  from deleteLedger_then_fetch [OF d] d show ?thesis
    by (simp add: backedUp_facts)
qed

end
